theory Spec2Isabelle
  imports Complex_Main "HOL-Library.Monad_Syntax" "HOL-Library.Multiset"
begin

section \<open>Market suggester\<close>

text \<open>
  The functions of \<^verbatim>\<open>app.py\<close> that map an average number of goals to a betting
  line. Python floats are read as real numbers and the decimal literals of the source as
  the exact decimal fractions they denote.
\<close>

definition sugerir_over_ft :: "real \<Rightarrow> string" where
  "sugerir_over_ft media_gols_ft =
     (if media_gols_ft \<ge> 6.70 then ''Over 5.5 FT''
      else if media_gols_ft \<ge> 5.70 then ''Over 4.5 FT''
      else if media_gols_ft \<ge> 4.50 then ''Over 3.5 FT''
      else if media_gols_ft \<ge> 3.45 then ''Over 2.5 FT''
      else if media_gols_ft \<ge> 2.40 then ''Over 1.5 FT''
      else if media_gols_ft \<ge> 2.00 then ''Over 0.5 FT''
      else ''Sem Entrada'')"

definition sugerir_over_ht :: "real \<Rightarrow> string" where
  "sugerir_over_ht media_gols_ht =
     (if media_gols_ht \<ge> 2.75 then ''Over 2.5 HT''
      else if media_gols_ht \<ge> 2.20 then ''Over 1.5 HT''
      else if media_gols_ht \<ge> 1.70 then ''Over 0.5 HT''
      else ''Sem Entrada'')"

text \<open>
  \<^verbatim>\<open>format_gols_ht_com_icone_para_display\<close> returns a glyph followed by the average
  printed with two decimals. The glyph is one of three (green, yellow and white circle);
  the model returns the glyph chosen together with the number that is printed after it.
\<close>

datatype icone = Verde | Amarelo | Branco

definition format_gols_ht_com_icone_para_display :: "real \<Rightarrow> icone \<times> real" where
  "format_gols_ht_com_icone_para_display gols_ht_media =
     (if gols_ht_media \<ge> 2.75 then (Verde, gols_ht_media)
      else if 2.62 \<le> gols_ht_media \<and> gols_ht_media \<le> 2.74 then (Amarelo, gols_ht_media)
      else (Branco, gols_ht_media))"

text \<open>
  The order of the suggested lines, lowest first, against which the ladders are compared:
  no entry, then Over 0.5, 1.5, ... of the period.
\<close>

definition ordem_ft :: "string \<Rightarrow> nat" where
  "ordem_ft s =
     (if s = ''Over 0.5 FT'' then 1
      else if s = ''Over 1.5 FT'' then 2
      else if s = ''Over 2.5 FT'' then 3
      else if s = ''Over 3.5 FT'' then 4
      else if s = ''Over 4.5 FT'' then 5
      else if s = ''Over 5.5 FT'' then 6
      else 0)"

definition ordem_ht :: "string \<Rightarrow> nat" where
  "ordem_ht s =
     (if s = ''Over 0.5 HT'' then 1
      else if s = ''Over 1.5 HT'' then 2
      else if s = ''Over 2.5 HT'' then 3
      else 0)"

section \<open>Results normalizer and live normalizer\<close>

subsection \<open>League names\<close>

text \<open>
  Both normalizers finish the league column with \<^verbatim>\<open>df["Liga"].replace(mapa_ligas)\<close>:
  a value that is a key of the dictionary is replaced by what the dictionary holds for it,
  every other value stays. The two dictionaries are the literals of
  \<^verbatim>\<open>buscar_resultados\<close> and of \<^verbatim>\<open>carregar_dados_ao_vivo\<close>.
\<close>

definition replace_liga :: "(string \<times> string) list \<Rightarrow> string \<Rightarrow> string" where
  "replace_liga mapa_ligas liga =
     (case map_of mapa_ligas liga of Some canonica \<Rightarrow> canonica | None \<Rightarrow> liga)"

definition mapa_ligas_resultados :: "(string \<times> string) list" where
  "mapa_ligas_resultados =
     [(''GT League'', ''GT 12 Min''),
      (''H2H 8m'', ''H2H 8 Min''),
      (''Battle 8m'', ''Battle 8 Min''),
      (''Battle 6m'', ''Volta 6 Min'')]"

definition mapa_ligas_ao_vivo :: "(string \<times> string) list" where
  "mapa_ligas_ao_vivo =
     [(''E-soccer - H2H GG League - 8 minutos de jogo'', ''H2H 8 Min''),
      (''Esoccer Battle Volta - 6 Minutos de Jogo'', ''Volta 6 Min''),
      (''E-soccer - GT Leagues - 12 mins de jogo'', ''GT 12 Min''),
      (''E-soccer - Battle - 8 minutos de jogo'', ''Battle 8 Min'')]"

definition COMPETICOES_PERMITIDAS :: "string list" where
  "COMPETICOES_PERMITIDAS =
     [''E-soccer - H2H GG League - 8 minutos de jogo'',
      ''Esoccer Battle Volta - 6 Minutos de Jogo'',
      ''E-soccer - GT Leagues - 12 mins de jogo'',
      ''E-soccer - Battle - 8 minutos de jogo'']"

definition liga_resultados :: "string \<Rightarrow> string" where
  "liga_resultados campeonato = replace_liga mapa_ligas_resultados campeonato"

text \<open>
  The live normalizer first drops every row whose competition is not allowed
  (\<open>None\<close> here), then renames the league of the rows it keeps.
\<close>

definition liga_ao_vivo :: "string \<Rightarrow> string option" where
  "liga_ao_vivo competicao =
     (if competicao \<in> set COMPETICOES_PERMITIDAS
      then Some (replace_liga mapa_ligas_ao_vivo competicao)
      else None)"

subsection \<open>Score cells\<close>

text \<open>
  A score column goes through \<^verbatim>\<open>.str.replace(" ", "")\<close>, then
  \<^verbatim>\<open>.str.split("x", n=1, expand=True).reindex(columns=[0, 1], fill_value="")\<close>: for each
  cell the text before the first \<open>x\<close> and the text after it. A cell with no \<open>x\<close> has no
  second part (a missing value, or the empty fill value when no cell of the column has
  one); both are read as not a number, so the model has one case for them, \<open>None\<close>.
\<close>

definition sem_espacos :: "string \<Rightarrow> string" where
  "sem_espacos s = filter (\<lambda>c. c \<noteq> CHR '' '') s"

definition split_x :: "string \<Rightarrow> string \<times> string option" where
  "split_x s =
     (if CHR ''x'' \<in> set s
      then (takeWhile (\<lambda>c. c \<noteq> CHR ''x'') s,
            Some (tl (dropWhile (\<lambda>c. c \<noteq> CHR ''x'') s)))
      else (s, None))"

text \<open>
  Each of the two columns of parts then goes through
  \<^verbatim>\<open>pd.to_numeric(..., errors="coerce").fillna(0).astype(int)\<close>, a library pipeline
  that works on the whole column. \<open>leitura\<close> is what \<^verbatim>\<open>pd.to_numeric\<close> reads in one
  part. The model reads four kinds of parts itself: a missing or empty part and a part
  made of letters only are not a number (NaN), but for the words \<^verbatim>\<open>inf\<close> and
  \<^verbatim>\<open>infinity\<close> in any case of letters, which are an infinity; a non-empty string of
  decimal digits is the integer it denotes. Every other part (a sign, a decimal point, an
  exponent, any other character) is \<open>Outro_texto\<close>: the model does not say what the
  library reads there.
\<close>

datatype leitura = Inteiro int | Infinito | Nao_numero | Outro_texto

definition digito :: "char \<Rightarrow> nat option" where
  "digito c =
     (let n = (of_char c :: nat) in if 48 \<le> n \<and> n \<le> 57 then Some (n - 48) else None)"

fun ler_digitos :: "nat \<Rightarrow> string \<Rightarrow> nat option" where
  "ler_digitos acc [] = Some acc"
| "ler_digitos acc (c # cs) =
     (case digito c of None \<Rightarrow> None | Some d \<Rightarrow> ler_digitos (10 * acc + d) cs)"

definition letra :: "char \<Rightarrow> bool" where
  "letra c =
     (let n = (of_char c :: nat) in (65 \<le> n \<and> n \<le> 90) \<or> (97 \<le> n \<and> n \<le> 122))"

definition minuscula :: "char \<Rightarrow> char" where
  "minuscula c =
     (let n = (of_char c :: nat) in if 65 \<le> n \<and> n \<le> 90 then char_of (n + 32) else c)"

definition to_numeric :: "string option \<Rightarrow> leitura" where
  "to_numeric parte =
     (case parte of
        None \<Rightarrow> Nao_numero
      | Some s \<Rightarrow>
          if s = [] then Nao_numero
          else case ler_digitos 0 s of
                 Some n \<Rightarrow> Inteiro (int n)
               | None \<Rightarrow>
                   if list_all letra s
                   then (if map minuscula s = ''inf'' \<or> map minuscula s = ''infinity''
                         then Infinito else Nao_numero)
                   else Outro_texto)"

text \<open>
  The greatest 64-bit integer, and the greatest integer up to which every integer is a
  64-bit float.
\<close>

definition INT64_MAX :: int where
  "INT64_MAX = 9223372036854775807"

definition FLOAT_EXATO :: int where
  "FLOAT_EXATO = 9007199254740992"

text \<open>
  The column after \<^verbatim>\<open>to_numeric\<close>, \<^verbatim>\<open>fillna(0)\<close> and \<^verbatim>\<open>astype(int)\<close>, or \<open>None\<close>
  when \<^verbatim>\<open>astype(int)\<close> raises. The model computes four cases; the parameter
  \<open>fora_do_modelo\<close> stands for what the library returns on every other column.
  \<^item> A column with an infinity, all of whose parts the model reads: it is a column of
    floats with a value that is not finite, and \<^verbatim>\<open>astype(int)\<close> raises.
  \<^item> A column of integers up to \<open>INT64_MAX\<close>: it is a column of 64-bit integers and
    stays as it is.
  \<^item> A column of integers up to \<open>FLOAT_EXATO\<close> and of parts that are not a number: it is
    a column of floats that holds every integer exactly; NaN becomes 0 and the floats
    become the integers again.
\<close>

definition valor_lido :: "leitura \<Rightarrow> int" where
  "valor_lido l = (case l of Inteiro n \<Rightarrow> n | _ \<Rightarrow> 0)"

definition coluna_de_inteiros :: "leitura list \<Rightarrow> bool" where
  "coluna_de_inteiros ls =
     list_all (\<lambda>l. case l of Inteiro n \<Rightarrow> n \<le> INT64_MAX | _ \<Rightarrow> False) ls"

definition coluna_de_floats_exatos :: "leitura list \<Rightarrow> bool" where
  "coluna_de_floats_exatos ls =
     list_all (\<lambda>l. case l of Inteiro n \<Rightarrow> n \<le> FLOAT_EXATO | Nao_numero \<Rightarrow> True | _ \<Rightarrow> False) ls"

definition fillna_astype_int ::
    "(string option list \<Rightarrow> int list option) \<Rightarrow> string option list \<Rightarrow> int list option" where
  "fillna_astype_int fora_do_modelo coluna =
     (let ls = map to_numeric coluna in
      if Outro_texto \<in> set ls then fora_do_modelo coluna
      else if Infinito \<in> set ls then None
      else if coluna_de_inteiros ls \<or> coluna_de_floats_exatos ls then Some (map valor_lido ls)
      else fora_do_modelo coluna)"

text \<open>
  The sum of two columns of 64-bit integers wraps around: it is the sum modulo \<open>2^64\<close>,
  read as a signed number.
\<close>

definition soma_int64 :: "int \<Rightarrow> int \<Rightarrow> int" where
  "soma_int64 a b = (a + b + 2 ^ 63) mod 2 ^ 64 - 2 ^ 63"

text \<open>
  The three columns a score column becomes: home goals, away goals and their total, one
  row for each cell. When \<^verbatim>\<open>astype(int)\<close> raises, the \<^verbatim>\<open>except\<close> clause of
  \<^verbatim>\<open>buscar_resultados\<close> returns an empty table, and every row is lost: \<open>None\<close>.
\<close>

definition placares_para_gols ::
    "(string option list \<Rightarrow> int list option) \<Rightarrow> string list \<Rightarrow> (int \<times> int \<times> int) list option" where
  "placares_para_gols fora_do_modelo placares =
     (let partes = map (\<lambda>placar. split_x (sem_espacos placar)) placares in
      case fillna_astype_int fora_do_modelo (map (\<lambda>p. Some (fst p)) partes) of
        None \<Rightarrow> None
      | Some mandante \<Rightarrow>
          (case fillna_astype_int fora_do_modelo (map snd partes) of
             None \<Rightarrow> None
           | Some visitante \<Rightarrow>
               Some (map (\<lambda>(m, v). (m, v, soma_int64 m v)) (zip mandante visitante))))"

text \<open>
  What a cell becomes when both columns are among those the model computes: its two parts
  as numbers and their 64-bit sum.
\<close>

definition gols_do_placar :: "string \<Rightarrow> int \<times> int \<times> int" where
  "gols_do_placar placar =
     (let (p0, p1) = split_x (sem_espacos placar);
          mandante = valor_lido (to_numeric (Some p0));
          visitante = valor_lido (to_numeric p1)
      in (mandante, visitante, soma_int64 mandante visitante))"

text \<open>
  The score columns the model computes by itself: each of the two columns of parts is a
  column of integers up to \<open>INT64_MAX\<close>, or a column of integers up to \<open>FLOAT_EXATO\<close>
  and of parts that are not a number.
\<close>

definition colunas_modeladas :: "string list \<Rightarrow> bool" where
  "colunas_modeladas placares =
     (let partes = map (\<lambda>placar. split_x (sem_espacos placar)) placares;
          l0 = map (\<lambda>p. to_numeric (Some (fst p))) partes;
          l1 = map (\<lambda>p. to_numeric (snd p)) partes
      in (coluna_de_inteiros l0 \<or> coluna_de_floats_exatos l0) \<and>
         (coluna_de_inteiros l1 \<or> coluna_de_floats_exatos l1))"

text \<open>A parameter for the witnesses: a library that loses every column the model leaves out.\<close>

definition nenhuma_outra_coluna :: "string option list \<Rightarrow> int list option" where
  "nenhuma_outra_coluna coluna = None"

section \<open>Statistics engine\<close>

subsection \<open>The match table\<close>

text \<open>
  A row of the table that \<^verbatim>\<open>buscar_resultados\<close> returns, with its ten columns. The
  statistics functions read the columns \<^verbatim>\<open>Total HT\<close> and \<^verbatim>\<open>Total FT\<close> as they
  stand in the table, so the record keeps them as fields of their own. A table is the
  list of its rows, in the order of the table.
\<close>

record partida =
  Data :: string
  Liga :: string
  Mandante :: string
  Visitante :: string
  Mandante_HT :: int
  Visitante_HT :: int
  Total_HT :: int
  Mandante_FT :: int
  Visitante_FT :: int
  Total_FT :: int

subsection \<open>The counters\<close>

text \<open>
  The three statistics functions keep their counters in dictionaries; the keys they share
  are the twelve hit counters. \<open>estat_jogador\<close> has the keys of the dictionary
  \<^verbatim>\<open>zeros\<close> of \<^verbatim>\<open>calcular_estatisticas_jogador\<close>, \<open>estat_todos\<close> those of an entry of
  \<^verbatim>\<open>jogador_stats\<close> in \<^verbatim>\<open>calcular_estatisticas_todos_jogadores\<close>, and \<open>recentes\<close> those
  of \<^verbatim>\<open>stats\<close> in \<^verbatim>\<open>get_recent_player_stats\<close> before the averages are added.
\<close>

record acertos =
  over_05_ht_hits :: int
  over_15_ht_hits :: int
  over_25_ht_hits :: int
  btts_ht_hits :: int
  over_05_ft_hits :: int
  over_15_ft_hits :: int
  over_25_ft_hits :: int
  over_35_ft_hits :: int
  over_45_ft_hits :: int
  over_55_ft_hits :: int
  over_65_ft_hits :: int
  btts_ft_hits :: int

record recentes = acertos +
  jogos_recentes :: int
  gols_marcados_ft :: int
  gols_sofridos_ft :: int
  gols_marcados_ht :: int
  gols_sofridos_ht :: int
  under_25_ft_hits :: int
  sequencia_vitorias :: int
  sequencia_derrotas :: int
  sequencia_empates :: int
  sequencia_btts :: int
  sequencia_over_25_ft :: int

record estat_jogador = acertos +
  jogos_total :: int
  gols_marcados :: int
  gols_sofridos :: int
  gols_marcados_ht :: int
  gols_sofridos_ht :: int

record estat_todos = estat_jogador +
  vitorias :: int
  derrotas :: int
  empates :: int
  clean_sheets :: int
  under_25_ft_hits :: int
  ligas_atuantes :: "string set"

text \<open>\<^verbatim>\<open>1 if c else 0\<close>.\<close>

definition um_se :: "bool \<Rightarrow> int" where
  "um_se c = (if c then 1 else 0)"

text \<open>\<^verbatim>\<open>if c: stmt\<close>, a statement that runs under a condition and has no else branch.\<close>

definition se :: "bool \<Rightarrow> ('a \<Rightarrow> 'a) \<Rightarrow> 'a \<Rightarrow> 'a" where
  "se c stmt x = (if c then stmt x else x)"

subsection \<open>One player in one league\<close>

definition zeros :: estat_jogador where
  "zeros =
     \<lparr>over_05_ht_hits = 0, over_15_ht_hits = 0, over_25_ht_hits = 0, btts_ht_hits = 0,
      over_05_ft_hits = 0, over_15_ft_hits = 0, over_25_ft_hits = 0, over_35_ft_hits = 0,
      over_45_ft_hits = 0, over_55_ft_hits = 0, over_65_ft_hits = 0, btts_ft_hits = 0,
      jogos_total = 0, gols_marcados = 0, gols_sofridos = 0,
      gols_marcados_ht = 0, gols_sofridos_ht = 0\<rparr>"

definition jogos_mandante :: "partida list \<Rightarrow> string \<Rightarrow> string \<Rightarrow> partida list" where
  "jogos_mandante df jogador liga = filter (\<lambda>j. Mandante j = jogador \<and> Liga j = liga) df"

definition jogos_visitante :: "partida list \<Rightarrow> string \<Rightarrow> string \<Rightarrow> partida list" where
  "jogos_visitante df jogador liga = filter (\<lambda>j. Visitante j = jogador \<and> Liga j = liga) df"

definition acum :: "partida \<Rightarrow> bool \<Rightarrow> estat_jogador \<Rightarrow> estat_jogador" where
  "acum jogo casa s =
     (let gf_ft = (if casa then Mandante_FT jogo else Visitante_FT jogo);
          ga_ft = (if casa then Visitante_FT jogo else Mandante_FT jogo);
          gf_ht = (if casa then Mandante_HT jogo else Visitante_HT jogo);
          ga_ht = (if casa then Visitante_HT jogo else Mandante_HT jogo);
          s = s\<lparr>gols_marcados := gols_marcados s + gf_ft\<rparr>;
          s = s\<lparr>gols_sofridos := gols_sofridos s + ga_ft\<rparr>;
          s = s\<lparr>estat_jogador.gols_marcados_ht := estat_jogador.gols_marcados_ht s + gf_ht\<rparr>;
          s = s\<lparr>estat_jogador.gols_sofridos_ht := estat_jogador.gols_sofridos_ht s + ga_ht\<rparr>;
          total_ht = Total_HT jogo;
          s = s\<lparr>over_05_ht_hits := over_05_ht_hits s + um_se (total_ht > 0)\<rparr>;
          s = s\<lparr>over_15_ht_hits := over_15_ht_hits s + um_se (total_ht > 1)\<rparr>;
          s = s\<lparr>over_25_ht_hits := over_25_ht_hits s + um_se (total_ht > 2)\<rparr>;
          s = s\<lparr>btts_ht_hits := btts_ht_hits s + um_se (gf_ht > 0 \<and> ga_ht > 0)\<rparr>;
          total_ft = Total_FT jogo;
          s = s\<lparr>over_05_ft_hits := over_05_ft_hits s + um_se (total_ft > 0)\<rparr>;
          s = s\<lparr>over_15_ft_hits := over_15_ft_hits s + um_se (total_ft > 1)\<rparr>;
          s = s\<lparr>over_25_ft_hits := over_25_ft_hits s + um_se (total_ft > 2)\<rparr>;
          s = s\<lparr>over_35_ft_hits := over_35_ft_hits s + um_se (total_ft > 3)\<rparr>;
          s = s\<lparr>over_45_ft_hits := over_45_ft_hits s + um_se (total_ft > 4)\<rparr>;
          s = s\<lparr>over_55_ft_hits := over_55_ft_hits s + um_se (total_ft > 5)\<rparr>;
          s = s\<lparr>over_65_ft_hits := over_65_ft_hits s + um_se (total_ft > 6)\<rparr>;
          s = s\<lparr>btts_ft_hits := btts_ft_hits s + um_se (gf_ft > 0 \<and> ga_ft > 0)\<rparr>
      in s)"

definition calcular_estatisticas_jogador ::
    "partida list \<Rightarrow> string \<Rightarrow> string \<Rightarrow> estat_jogador" where
  "calcular_estatisticas_jogador df jogador liga =
     (if df = [] then zeros
      else
        let jm = jogos_mandante df jogador liga;
            jv = jogos_visitante df jogador liga;
            s = zeros\<lparr>jogos_total := int (length jm) + int (length jv)\<rparr>;
            s = fold (\<lambda>jogo. acum jogo True) jm s;
            s = fold (\<lambda>jogo. acum jogo False) jv s
        in s)"

subsection \<open>All players, all leagues\<close>

text \<open>
  \<^verbatim>\<open>jogador_stats\<close> is a \<^verbatim>\<open>defaultdict\<close>: reading a key that was never written yields
  the default entry, \<open>novo_jogador\<close>. It is modelled by a total function from player
  names to entries that starts as the constant function \<open>novo_jogador\<close>; the keys the
  dictionary really holds are kept apart, in \<open>chaves\<close>.
\<close>

definition novo_jogador :: estat_todos where
  "novo_jogador =
     \<lparr>over_05_ht_hits = 0, over_15_ht_hits = 0, over_25_ht_hits = 0, btts_ht_hits = 0,
      over_05_ft_hits = 0, over_15_ft_hits = 0, over_25_ft_hits = 0, over_35_ft_hits = 0,
      over_45_ft_hits = 0, over_55_ft_hits = 0, over_65_ft_hits = 0, btts_ft_hits = 0,
      jogos_total = 0, gols_marcados = 0, gols_sofridos = 0,
      gols_marcados_ht = 0, gols_sofridos_ht = 0,
      vitorias = 0, derrotas = 0, empates = 0, clean_sheets = 0,
      under_25_ft_hits = 0, ligas_atuantes = {}\<rparr>"

type_synonym jogador_stats = "string \<Rightarrow> estat_todos"

text \<open>\<^verbatim>\<open>jogador_stats[jogador][key] = ...\<close>: one entry changes, the others stay.\<close>

definition atualiza ::
    "string \<Rightarrow> (estat_todos \<Rightarrow> estat_todos) \<Rightarrow> jogador_stats \<Rightarrow> jogador_stats" where
  "atualiza jogador f js = js(jogador := f (js jogador))"

text \<open>
  The same update for the home player's entry and then for the away player's entry, the
  two statements under each test of a total.
\<close>

definition ambos ::
    "string \<Rightarrow> string \<Rightarrow> (estat_todos \<Rightarrow> estat_todos) \<Rightarrow> jogador_stats \<Rightarrow> jogador_stats" where
  "ambos mandante visitante f js = atualiza visitante f (atualiza mandante f js)"

text \<open>The body of the loop over the rows, statement by statement.\<close>

definition processa_linha :: "partida \<Rightarrow> jogador_stats \<Rightarrow> jogador_stats" where
  "processa_linha row js =
     (let mandante = Mandante row; visitante = Visitante row; liga = Liga row;
          js = atualiza mandante (\<lambda>s. s\<lparr>ligas_atuantes := insert liga (ligas_atuantes s)\<rparr>) js;
          js = atualiza visitante (\<lambda>s. s\<lparr>ligas_atuantes := insert liga (ligas_atuantes s)\<rparr>) js;
          js = atualiza mandante (\<lambda>s. s\<lparr>jogos_total := jogos_total s + 1\<rparr>) js;
          js = atualiza mandante (\<lambda>s. s\<lparr>gols_marcados := gols_marcados s + Mandante_FT row\<rparr>) js;
          js = atualiza mandante (\<lambda>s. s\<lparr>gols_sofridos := gols_sofridos s + Visitante_FT row\<rparr>) js;
          js = atualiza mandante (\<lambda>s. s\<lparr>estat_jogador.gols_marcados_ht :=
                                          estat_jogador.gols_marcados_ht s + Mandante_HT row\<rparr>) js;
          js = atualiza mandante (\<lambda>s. s\<lparr>estat_jogador.gols_sofridos_ht :=
                                          estat_jogador.gols_sofridos_ht s + Visitante_HT row\<rparr>) js;
          js = (if Mandante_FT row > Visitante_FT row
                then atualiza mandante (\<lambda>s. s\<lparr>vitorias := vitorias s + 1\<rparr>)
                else if Mandante_FT row < Visitante_FT row
                then atualiza mandante (\<lambda>s. s\<lparr>derrotas := derrotas s + 1\<rparr>)
                else atualiza mandante (\<lambda>s. s\<lparr>empates := empates s + 1\<rparr>)) js;
          js = se (Visitante_FT row = 0)
                 (atualiza mandante (\<lambda>s. s\<lparr>clean_sheets := clean_sheets s + 1\<rparr>)) js;
          js = atualiza visitante (\<lambda>s. s\<lparr>jogos_total := jogos_total s + 1\<rparr>) js;
          js = atualiza visitante (\<lambda>s. s\<lparr>gols_marcados := gols_marcados s + Visitante_FT row\<rparr>) js;
          js = atualiza visitante (\<lambda>s. s\<lparr>gols_sofridos := gols_sofridos s + Mandante_FT row\<rparr>) js;
          js = atualiza visitante (\<lambda>s. s\<lparr>estat_jogador.gols_marcados_ht :=
                                           estat_jogador.gols_marcados_ht s + Visitante_HT row\<rparr>) js;
          js = atualiza visitante (\<lambda>s. s\<lparr>estat_jogador.gols_sofridos_ht :=
                                           estat_jogador.gols_sofridos_ht s + Mandante_HT row\<rparr>) js;
          js = (if Visitante_FT row > Mandante_FT row
                then atualiza visitante (\<lambda>s. s\<lparr>vitorias := vitorias s + 1\<rparr>)
                else if Visitante_FT row < Mandante_FT row
                then atualiza visitante (\<lambda>s. s\<lparr>derrotas := derrotas s + 1\<rparr>)
                else atualiza visitante (\<lambda>s. s\<lparr>empates := empates s + 1\<rparr>)) js;
          js = se (Mandante_FT row = 0)
                 (atualiza visitante (\<lambda>s. s\<lparr>clean_sheets := clean_sheets s + 1\<rparr>)) js;
          total_ht = Total_HT row;
          total_ft = Total_FT row;
          js = se (total_ht > 0)
                 (ambos mandante visitante
                    (\<lambda>s. s\<lparr>over_05_ht_hits := over_05_ht_hits s + 1\<rparr>)) js;
          js = se (total_ht > 1)
                 (ambos mandante visitante
                    (\<lambda>s. s\<lparr>over_15_ht_hits := over_15_ht_hits s + 1\<rparr>)) js;
          js = se (total_ht > 2)
                 (ambos mandante visitante
                    (\<lambda>s. s\<lparr>over_25_ht_hits := over_25_ht_hits s + 1\<rparr>)) js;
          js = se (Mandante_HT row > 0 \<and> Visitante_HT row > 0)
                 (ambos mandante visitante
                    (\<lambda>s. s\<lparr>btts_ht_hits := btts_ht_hits s + 1\<rparr>)) js;
          js = se (total_ft > 0)
                 (ambos mandante visitante
                    (\<lambda>s. s\<lparr>over_05_ft_hits := over_05_ft_hits s + 1\<rparr>)) js;
          js = se (total_ft > 1)
                 (ambos mandante visitante
                    (\<lambda>s. s\<lparr>over_15_ft_hits := over_15_ft_hits s + 1\<rparr>)) js;
          js = (if total_ft > 2
                then ambos mandante visitante
                       (\<lambda>s. s\<lparr>over_25_ft_hits := over_25_ft_hits s + 1\<rparr>)
                else ambos mandante visitante
                       (\<lambda>s. s\<lparr>estat_todos.under_25_ft_hits :=
                                  estat_todos.under_25_ft_hits s + 1\<rparr>)) js;
          js = se (total_ft > 3)
                 (ambos mandante visitante
                    (\<lambda>s. s\<lparr>over_35_ft_hits := over_35_ft_hits s + 1\<rparr>)) js;
          js = se (total_ft > 4)
                 (ambos mandante visitante
                    (\<lambda>s. s\<lparr>over_45_ft_hits := over_45_ft_hits s + 1\<rparr>)) js;
          js = se (total_ft > 5)
                 (ambos mandante visitante
                    (\<lambda>s. s\<lparr>over_55_ft_hits := over_55_ft_hits s + 1\<rparr>)) js;
          js = se (total_ft > 6)
                 (ambos mandante visitante
                    (\<lambda>s. s\<lparr>over_65_ft_hits := over_65_ft_hits s + 1\<rparr>)) js;
          js = se (Mandante_FT row > 0 \<and> Visitante_FT row > 0)
                 (ambos mandante visitante
                    (\<lambda>s. s\<lparr>btts_ft_hits := btts_ft_hits s + 1\<rparr>)) js
      in js)"

text \<open>The dictionary after the loop: every row processed in the order of the table.\<close>

definition contadores :: "partida list \<Rightarrow> jogador_stats" where
  "contadores df_resultados = fold processa_linha df_resultados (\<lambda>jogador. novo_jogador)"

text \<open>
  The keys of the dictionary in the order of their creation, which is the order of the
  rows of the table that is returned: a key is created when it is first read, and every
  row reads the home player's entry first and the away player's entry next.
\<close>

definition insere_chave :: "string \<Rightarrow> string list \<Rightarrow> string list" where
  "insere_chave k ks = (if k \<in> set ks then ks else ks @ [k])"

definition chaves :: "partida list \<Rightarrow> string list" where
  "chaves df_resultados =
     fold (\<lambda>row ks. insere_chave (Visitante row) (insere_chave (Mandante row) ks))
       df_resultados []"

text \<open>
  The derived columns are computed on whole columns, with pandas' arithmetic: dividing an
  integer column by an integer column gives floats and never raises; a zero divisor gives
  an infinity, or NaN when the dividend is zero too; \<^verbatim>\<open>fillna(0)\<close> then replaces NaN,
  and only NaN, by 0. Finite floats are read as reals.
\<close>

datatype float64 = Finito real | Mais_infinito | Menos_infinito | NaN

definition truediv :: "int \<Rightarrow> int \<Rightarrow> float64" where
  "truediv a b =
     (if b \<noteq> 0 then Finito (real_of_int a / real_of_int b)
      else if a > 0 then Mais_infinito
      else if a < 0 then Menos_infinito
      else NaN)"

definition vezes_100 :: "float64 \<Rightarrow> float64" where
  "vezes_100 x = (case x of Finito r \<Rightarrow> Finito (r * 100) | _ \<Rightarrow> x)"

definition fillna_0 :: "float64 \<Rightarrow> float64" where
  "fillna_0 x = (case x of NaN \<Rightarrow> Finito 0 | _ \<Rightarrow> x)"

text \<open>\<^verbatim>\<open>(df[hits] / df["jogos_total"] * 100).fillna(0)\<close> and \<^verbatim>\<open>(df[gols] / df["jogos_total"]).fillna(0)\<close>.\<close>

definition taxa :: "int \<Rightarrow> int \<Rightarrow> float64" where
  "taxa hits jogos = fillna_0 (vezes_100 (truediv hits jogos))"

definition media :: "int \<Rightarrow> int \<Rightarrow> float64" where
  "media gols jogos = fillna_0 (truediv gols jogos)"

text \<open>
  A row of the table returned: the player, the counters and the derived columns. The
  fields ending in \<open>_pct\<close> stand for the columns whose names end in \<^verbatim>\<open>(%)\<close>
  (\<open>Over_25_FT_pct\<close> for \<^verbatim>\<open>Over 2.5 FT (%)\<close>), \<open>Gols_Marcados_Media\<close> and
  \<open>Gols_Sofridos_Media\<close> for the two averages and \<open>Saldo_de_Gols\<close> for the goal
  difference. The column \<^verbatim>\<open>Ligas Atuantes\<close>, the names in \<open>ligas_atuantes\<close> joined into
  one text, is left out.
\<close>

record linha_ranking = estat_todos +
  Jogador :: string
  Win_Rate_pct :: float64
  Derrota_Rate_pct :: float64
  Gols_Marcados_Media :: float64
  Gols_Sofridos_Media :: float64
  Saldo_de_Gols :: int
  Clean_Sheets_pct :: float64
  Over_05_HT_pct :: float64
  Over_15_HT_pct :: float64
  Over_25_HT_pct :: float64
  BTTS_HT_pct :: float64
  Over_05_FT_pct :: float64
  Over_15_FT_pct :: float64
  Over_25_FT_pct :: float64
  Over_35_FT_pct :: float64
  Over_45_FT_pct :: float64
  Over_55_FT_pct :: float64
  Over_65_FT_pct :: float64
  BTTS_FT_pct :: float64
  Under_25_FT_pct :: float64

definition linha_jogador :: "string \<Rightarrow> estat_todos \<Rightarrow> linha_ranking" where
  "linha_jogador jogador s =
     estat_todos.extend s
       (linha_ranking.fields jogador
          (taxa (vitorias s) (jogos_total s))
          (taxa (derrotas s) (jogos_total s))
          (media (gols_marcados s) (jogos_total s))
          (media (gols_sofridos s) (jogos_total s))
          (gols_marcados s - gols_sofridos s)
          (taxa (clean_sheets s) (jogos_total s))
          (taxa (over_05_ht_hits s) (jogos_total s))
          (taxa (over_15_ht_hits s) (jogos_total s))
          (taxa (over_25_ht_hits s) (jogos_total s))
          (taxa (btts_ht_hits s) (jogos_total s))
          (taxa (over_05_ft_hits s) (jogos_total s))
          (taxa (over_15_ft_hits s) (jogos_total s))
          (taxa (over_25_ft_hits s) (jogos_total s))
          (taxa (over_35_ft_hits s) (jogos_total s))
          (taxa (over_45_ft_hits s) (jogos_total s))
          (taxa (over_55_ft_hits s) (jogos_total s))
          (taxa (over_65_ft_hits s) (jogos_total s))
          (taxa (btts_ft_hits s) (jogos_total s))
          (taxa (estat_todos.under_25_ft_hits s) (jogos_total s)))"

definition calcular_estatisticas_todos_jogadores :: "partida list \<Rightarrow> linha_ranking list" where
  "calcular_estatisticas_todos_jogadores df_resultados =
     (if df_resultados = [] then []
      else map (\<lambda>jogador. linha_jogador jogador (contadores df_resultados jogador))
             (chaves df_resultados))"

subsection \<open>The percentage columns of a row\<close>

text \<open>
  The seventeen columns of a row whose names end in \<^verbatim>\<open>(%)\<close>, and its two averages.
\<close>

definition taxas_da_linha :: "linha_ranking \<Rightarrow> float64 list" where
  "taxas_da_linha r =
     [Win_Rate_pct r, Derrota_Rate_pct r, Clean_Sheets_pct r,
      Over_05_HT_pct r, Over_15_HT_pct r, Over_25_HT_pct r, BTTS_HT_pct r,
      Over_05_FT_pct r, Over_15_FT_pct r, Over_25_FT_pct r, Over_35_FT_pct r,
      Over_45_FT_pct r, Over_55_FT_pct r, Over_65_FT_pct r, BTTS_FT_pct r,
      Under_25_FT_pct r]"

definition medias_da_linha :: "linha_ranking \<Rightarrow> float64 list" where
  "medias_da_linha r = [Gols_Marcados_Media r, Gols_Sofridos_Media r]"

subsection \<open>One player, the most recent games\<close>


text \<open>The strings \<^verbatim>\<open>"win"\<close>, \<^verbatim>\<open>"loss"\<close> and \<^verbatim>\<open>"draw"\<close> of \<^verbatim>\<open>current_result\<close>.\<close>

datatype resultado = Win | Loss | Draw

definition recentes_iniciais :: "int \<Rightarrow> recentes" where
  "recentes_iniciais n =
     \<lparr>over_05_ht_hits = 0, over_15_ht_hits = 0, over_25_ht_hits = 0, btts_ht_hits = 0,
      over_05_ft_hits = 0, over_15_ft_hits = 0, over_25_ft_hits = 0, over_35_ft_hits = 0,
      over_45_ft_hits = 0, over_55_ft_hits = 0, over_65_ft_hits = 0, btts_ft_hits = 0,
      jogos_recentes = n, gols_marcados_ft = 0, gols_sofridos_ft = 0,
      gols_marcados_ht = 0, gols_sofridos_ht = 0, under_25_ft_hits = 0,
      sequencia_vitorias = 0, sequencia_derrotas = 0, sequencia_empates = 0,
      sequencia_btts = 0, sequencia_over_25_ft = 0\<rparr>"

text \<open>
  The state of the loop over the window: the dictionary \<^verbatim>\<open>stats\<close> and the three
  variables \<^verbatim>\<open>last_result\<close>, \<^verbatim>\<open>last_btts\<close> and \<^verbatim>\<open>last_over_25_ft\<close>, which
  start as \<^verbatim>\<open>None\<close>.
\<close>

type_synonym estado_recente = "recentes \<times> resultado option \<times> bool option \<times> bool option"

text \<open>What the loop computes from a row for the player, before it touches the dictionary.\<close>

definition gols_ft_do_jogador :: "string \<Rightarrow> partida \<Rightarrow> int \<times> int" where
  "gols_ft_do_jogador player_name row =
     (let is_home = (Mandante row = player_name);
          gf_ft = (if is_home then Mandante_FT row else Visitante_FT row);
          ga_ft = (if is_home then Visitante_FT row else Mandante_FT row)
      in (gf_ft, ga_ft))"

definition gols_ht_do_jogador :: "string \<Rightarrow> partida \<Rightarrow> int \<times> int" where
  "gols_ht_do_jogador player_name row =
     (let is_home = (Mandante row = player_name);
          gf_ht = (if is_home then Mandante_HT row else Visitante_HT row);
          ga_ht = (if is_home then Visitante_HT row else Mandante_HT row)
      in (gf_ht, ga_ht))"

definition current_result :: "string \<Rightarrow> partida \<Rightarrow> resultado" where
  "current_result player_name row =
     (let (gf_ft, ga_ft) = gols_ft_do_jogador player_name row
      in if gf_ft > ga_ft then Win else if gf_ft < ga_ft then Loss else Draw)"

definition btts_ft_current :: "string \<Rightarrow> partida \<Rightarrow> bool" where
  "btts_ft_current player_name row =
     (let (gf_ft, ga_ft) = gols_ft_do_jogador player_name row in gf_ft > 0 \<and> ga_ft > 0)"

definition over_25_ft_current :: "partida \<Rightarrow> bool" where
  "over_25_ft_current row = (Total_FT row > 2)"

text \<open>The body of the loop, statement by statement.\<close>

definition passo_recente :: "string \<Rightarrow> partida \<Rightarrow> estado_recente \<Rightarrow> estado_recente" where
  "passo_recente player_name row estado =
     (let (stats, last_result, last_btts, last_over_25_ft) = estado;
          (gf_ft, ga_ft) = gols_ft_do_jogador player_name row;
          (gf_ht, ga_ht) = gols_ht_do_jogador player_name row;
          stats = stats\<lparr>gols_marcados_ft := gols_marcados_ft stats + gf_ft\<rparr>;
          stats = stats\<lparr>gols_sofridos_ft := gols_sofridos_ft stats + ga_ft\<rparr>;
          stats = stats\<lparr>recentes.gols_marcados_ht := recentes.gols_marcados_ht stats + gf_ht\<rparr>;
          stats = stats\<lparr>recentes.gols_sofridos_ht := recentes.gols_sofridos_ht stats + ga_ht\<rparr>;
          total_ht = Total_HT row;
          stats = se (total_ht > 0) (\<lambda>s. s\<lparr>over_05_ht_hits := over_05_ht_hits s + 1\<rparr>) stats;
          stats = se (total_ht > 1) (\<lambda>s. s\<lparr>over_15_ht_hits := over_15_ht_hits s + 1\<rparr>) stats;
          stats = se (total_ht > 2) (\<lambda>s. s\<lparr>over_25_ht_hits := over_25_ht_hits s + 1\<rparr>) stats;
          stats = se (gf_ht > 0 \<and> ga_ht > 0)
                    (\<lambda>s. s\<lparr>btts_ht_hits := btts_ht_hits s + 1\<rparr>) stats;
          total_ft = Total_FT row;
          stats = se (total_ft > 0) (\<lambda>s. s\<lparr>over_05_ft_hits := over_05_ft_hits s + 1\<rparr>) stats;
          stats = se (total_ft > 1) (\<lambda>s. s\<lparr>over_15_ft_hits := over_15_ft_hits s + 1\<rparr>) stats;
          stats = (if total_ft > 2
                   then (\<lambda>s. s\<lparr>over_25_ft_hits := over_25_ft_hits s + 1\<rparr>)
                   else (\<lambda>s. s\<lparr>recentes.under_25_ft_hits :=
                                 recentes.under_25_ft_hits s + 1\<rparr>)) stats;
          stats = se (total_ft > 3) (\<lambda>s. s\<lparr>over_35_ft_hits := over_35_ft_hits s + 1\<rparr>) stats;
          stats = se (total_ft > 4) (\<lambda>s. s\<lparr>over_45_ft_hits := over_45_ft_hits s + 1\<rparr>) stats;
          stats = se (total_ft > 5) (\<lambda>s. s\<lparr>over_55_ft_hits := over_55_ft_hits s + 1\<rparr>) stats;
          stats = se (total_ft > 6) (\<lambda>s. s\<lparr>over_65_ft_hits := over_65_ft_hits s + 1\<rparr>) stats;
          btts = btts_ft_current player_name row;
          stats = se btts (\<lambda>s. s\<lparr>btts_ft_hits := btts_ft_hits s + 1\<rparr>) stats;
          over_25 = over_25_ft_current row;
          resultado = current_result player_name row;
          stats = (if last_result = None \<or> Some resultado = last_result
                   then (if resultado = Win
                         then (\<lambda>s. s\<lparr>sequencia_vitorias := sequencia_vitorias s + 1\<rparr>)
                         else if resultado = Loss
                         then (\<lambda>s. s\<lparr>sequencia_derrotas := sequencia_derrotas s + 1\<rparr>)
                         else (\<lambda>s. s\<lparr>sequencia_empates := sequencia_empates s + 1\<rparr>))
                   else (\<lambda>s. s\<lparr>sequencia_vitorias := um_se (resultado = Win),
                               sequencia_derrotas := um_se (resultado = Loss),
                               sequencia_empates := um_se (resultado = Draw)\<rparr>)) stats;
          stats = (if last_btts = None \<or> Some btts = last_btts
                   then se btts (\<lambda>s. s\<lparr>sequencia_btts := sequencia_btts s + 1\<rparr>)
                   else (\<lambda>s. s\<lparr>sequencia_btts := um_se btts\<rparr>)) stats;
          stats = (if last_over_25_ft = None \<or> Some over_25 = last_over_25_ft
                   then se over_25
                          (\<lambda>s. s\<lparr>sequencia_over_25_ft := sequencia_over_25_ft s + 1\<rparr>)
                   else (\<lambda>s. s\<lparr>sequencia_over_25_ft := um_se over_25\<rparr>)) stats
      in (stats, Some resultado, Some btts, Some over_25))"

text \<open>
  The averages and percentages that are added to the dictionary after the loop. The
  division is Python's \<^verbatim>\<open>/\<close>, which raises \<^verbatim>\<open>ZeroDivisionError\<close> on a zero divisor:
  \<open>None\<close> stands for the exception, in \<open>py_truediv\<close> and in the functions built on it.
\<close>

record medias =
  media_gols_marcados_ft :: real
  media_gols_sofridos_ft :: real
  media_gols_marcados_ht :: real
  media_gols_sofridos_ht :: real
  pct_over_05_ht :: real
  pct_over_15_ht :: real
  pct_over_25_ht :: real
  pct_btts_ht :: real
  pct_over_05_ft :: real
  pct_over_15_ft :: real
  pct_over_25_ft :: real
  pct_over_35_ft :: real
  pct_over_45_ft :: real
  pct_over_55_ft :: real
  pct_over_65_ft :: real
  pct_btts_ft :: real
  pct_under_25_ft :: real

definition py_truediv :: "int \<Rightarrow> int \<Rightarrow> real option" where
  "py_truediv a b = (if b = 0 then None else Some (real_of_int a / real_of_int b))"





definition laco_recente :: "string \<Rightarrow> partida list \<Rightarrow> recentes" where
  "laco_recente player_name janela =
     fst (fold (passo_recente player_name) janela
            (recentes_iniciais (int (length janela)), None, None, None))"


text \<open>The thirteen percentages of a dictionary of averages.\<close>

definition pcts_recentes :: "medias \<Rightarrow> real list" where
  "pcts_recentes m =
     [pct_over_05_ht m, pct_over_15_ht m, pct_over_25_ht m, pct_btts_ht m,
      pct_over_05_ft m, pct_over_15_ft m, pct_over_25_ft m, pct_over_35_ft m,
      pct_over_45_ft m, pct_over_55_ft m, pct_over_65_ft m, pct_btts_ft m,
      pct_under_25_ft m]"


section \<open>Ranking builder\<close>

text \<open>
  \<^verbatim>\<open>gerar_ranking\<close> works on a statistics table, whose rows are those of
  \<open>linha_ranking\<close>. The column named by \<^verbatim>\<open>metrica_principal\<close> is the parameter
  \<open>metrica\<close>, the numeric value of that column in a row. The model covers the selection
  of the rows, their order, the cut to the first rows, the medals and the placeholder
  table; the last steps of the function, which keep the display columns of the selected
  rows, rename them and print their numbers, change no row and are left out.
\<close>

text \<open>
  \<^verbatim>\<open>DataFrame.head(n)\<close>: the first \<open>n\<close> rows, and for a negative \<open>n\<close> all rows but the
  last \<open>-n\<close>.
\<close>

definition df_head :: "int \<Rightarrow> 'a list \<Rightarrow> 'a list" where
  "df_head n xs = (if n \<ge> 0 then take (nat n) xs else take (length xs - nat (- n)) xs)"

text \<open>
  \<^verbatim>\<open>sort_values(by=..., ascending=...)\<close>. For a descending sort pandas reverses the rows,
  sorts them in ascending order and reverses the result. The order it leaves among rows
  of equal value depends on the sorting algorithm; the model takes a stable one.
\<close>

definition sort_values :: "('a \<Rightarrow> real) \<Rightarrow> bool \<Rightarrow> 'a list \<Rightarrow> 'a list" where
  "sort_values metrica ascendente xs =
     (if ascendente then sort_key metrica xs else rev (sort_key metrica (rev xs)))"

text \<open>
  The medals of the first three rows, as their UTF-8 bytes, and the statement that puts
  them before the names.
\<close>

definition medalhas :: "nat \<Rightarrow> string option" where
  "medalhas i =
     (if i = 0 then Some [CHR 0xF0, CHR 0x9F, CHR 0xA5, CHR 0x87]
      else if i = 1 then Some [CHR 0xF0, CHR 0x9F, CHR 0xA5, CHR 0x88]
      else if i = 2 then Some [CHR 0xF0, CHR 0x9F, CHR 0xA5, CHR 0x89]
      else None)"

definition com_medalhas :: "linha_ranking list \<Rightarrow> linha_ranking list" where
  "com_medalhas df_ranking =
     map (\<lambda>(i, row). case medalhas i of
                        Some medalha \<Rightarrow> row\<lparr>Jogador := medalha @ '' '' @ Jogador row\<rparr>
                      | None \<Rightarrow> row)
       (enumerate 0 df_ranking)"

text \<open>
  The placeholder row: a dictionary that starts with the key \<^verbatim>\<open>Jogador\<close> and receives
  a key for every display column other than \<^verbatim>\<open>Jogador\<close>, each with the text
  \<^verbatim>\<open>N/A\<close>. Its keys are in the order of their creation.
\<close>

definition dummy_data :: "string list \<Rightarrow> (string \<times> string) list" where
  "dummy_data colunas_exibicao =
     map (\<lambda>col. (col, ''N/A''))
       (fold insere_chave (filter (\<lambda>col. col \<noteq> ''Jogador'') colunas_exibicao) [''Jogador''])"

text \<open>
  The table returned: the one-row table of texts, or the ranked rows.
\<close>

datatype tabela_ranking =
  Tabela_Texto "(string \<times> string) list list"
| Tabela_Ranking "linha_ranking list"

definition gerar_ranking ::
    "linha_ranking list \<Rightarrow> (linha_ranking \<Rightarrow> real) \<Rightarrow> string list \<Rightarrow> bool \<Rightarrow> int \<Rightarrow> int
       \<Rightarrow> tabela_ranking" where
  "gerar_ranking df_stats_base metrica colunas_exibicao ascendente min_jogos top_n =
     (let df_ranking = filter (\<lambda>row. jogos_total row \<ge> min_jogos) df_stats_base in
      if df_ranking = [] then Tabela_Texto [dummy_data colunas_exibicao]
      else Tabela_Ranking
             (com_medalhas (df_head top_n (sort_values metrica ascendente df_ranking))))"

text \<open>The defaults of the two numeric parameters.\<close>

definition min_jogos_padrao :: int where
  "min_jogos_padrao = 10"

definition top_n_padrao :: int where
  "top_n_padrao = 20"

section \<open>Example tables\<close>

text \<open>
  A row as the results normalizer builds it: each total is the sum of the two goal columns.
\<close>

definition jogo ::
    "string \<Rightarrow> string \<Rightarrow> string \<Rightarrow> string \<Rightarrow> int \<Rightarrow> int \<Rightarrow> int \<Rightarrow> int \<Rightarrow> partida" where
  "jogo data liga mandante visitante mandante_ht visitante_ht mandante_ft visitante_ft =
     \<lparr>Data = data, Liga = liga, Mandante = mandante, Visitante = visitante,
      Mandante_HT = mandante_ht, Visitante_HT = visitante_ht,
      Total_HT = mandante_ht + visitante_ht,
      Mandante_FT = mandante_ft, Visitante_FT = visitante_ft,
      Total_FT = mandante_ft + visitante_ft\<rparr>"

text \<open>Three games of Ana in one league, with full-time totals 3, 1 and 4.\<close>

definition tabela_exemplo :: "partida list" where
  "tabela_exemplo =
     [jogo ''01/05'' ''GT 12 Min'' ''Ana'' ''Bia'' 1 0 2 1,
      jogo ''02/05'' ''GT 12 Min'' ''Caio'' ''Ana'' 0 0 1 0,
      jogo ''03/05'' ''GT 12 Min'' ''Ana'' ''Caio'' 2 1 3 1]"


section \<open>Properties of the market suggester\<close>

text \<open>
  C3. The full-time ladder returns each line exactly on its band of averages
  (6.70 and above, 5.70 to 6.70, 4.50 to 5.70, 3.45 to 4.50, 2.40 to 3.45, 2.00 to 2.40,
  below 2.00), and the half-time ladder likewise (2.75 and above, 2.20 to 2.75,
  1.70 to 2.20, below 1.70); each band contains its lower end and not its upper end.
\<close>

theorem sugerir_over_bands:
  "(sugerir_over_ft a = ''Over 5.5 FT'' \<longleftrightarrow> 6.70 \<le> a) \<and>
   (sugerir_over_ft a = ''Over 4.5 FT'' \<longleftrightarrow> 5.70 \<le> a \<and> a < 6.70) \<and>
   (sugerir_over_ft a = ''Over 3.5 FT'' \<longleftrightarrow> 4.50 \<le> a \<and> a < 5.70) \<and>
   (sugerir_over_ft a = ''Over 2.5 FT'' \<longleftrightarrow> 3.45 \<le> a \<and> a < 4.50) \<and>
   (sugerir_over_ft a = ''Over 1.5 FT'' \<longleftrightarrow> 2.40 \<le> a \<and> a < 3.45) \<and>
   (sugerir_over_ft a = ''Over 0.5 FT'' \<longleftrightarrow> 2.00 \<le> a \<and> a < 2.40) \<and>
   (sugerir_over_ft a = ''Sem Entrada'' \<longleftrightarrow> a < 2.00) \<and>
   (sugerir_over_ht a = ''Over 2.5 HT'' \<longleftrightarrow> 2.75 \<le> a) \<and>
   (sugerir_over_ht a = ''Over 1.5 HT'' \<longleftrightarrow> 2.20 \<le> a \<and> a < 2.75) \<and>
   (sugerir_over_ht a = ''Over 0.5 HT'' \<longleftrightarrow> 1.70 \<le> a \<and> a < 2.20) \<and>
   (sugerir_over_ht a = ''Sem Entrada'' \<longleftrightarrow> a < 1.70)"
  by (simp add: sugerir_over_ft_def sugerir_over_ht_def)

text \<open>
  C4. Both ladders are monotonic: of two averages, the larger one never receives a lower
  line than the smaller one. The statement covers every pair of reals, so also the
  boundary values 2.00, 2.40, 3.45, 4.50, 5.70, 6.70 and 1.70, 2.20, 2.75.
\<close>

lemma ordem_ft_simps:
  "ordem_ft ''Sem Entrada'' = 0" "ordem_ft ''Over 0.5 FT'' = 1" "ordem_ft ''Over 1.5 FT'' = 2"
  "ordem_ft ''Over 2.5 FT'' = 3" "ordem_ft ''Over 3.5 FT'' = 4" "ordem_ft ''Over 4.5 FT'' = 5"
  "ordem_ft ''Over 5.5 FT'' = 6"
  by (simp_all add: ordem_ft_def)

lemma ordem_ht_simps:
  "ordem_ht ''Sem Entrada'' = 0" "ordem_ht ''Over 0.5 HT'' = 1" "ordem_ht ''Over 1.5 HT'' = 2"
  "ordem_ht ''Over 2.5 HT'' = 3"
  by (simp_all add: ordem_ht_def)

theorem sugerir_over_mono:
  assumes "a \<le> b"
  shows "ordem_ft (sugerir_over_ft a) \<le> ordem_ft (sugerir_over_ft b) \<and>
         ordem_ht (sugerir_over_ht a) \<le> ordem_ht (sugerir_over_ht b)"
  using assms
  by (simp add: sugerir_over_ft_def sugerir_over_ht_def ordem_ft_simps ordem_ht_simps)

theorem sugerir_over_mono_witness:
  "ordem_ft (sugerir_over_ft 2.39) \<le> ordem_ft (sugerir_over_ft 2.40) \<and>
   ordem_ht (sugerir_over_ht 2.39) \<le> ordem_ht (sugerir_over_ht 2.40) \<and>
   sugerir_over_ft 2.39 = ''Over 0.5 FT'' \<and> sugerir_over_ft 2.40 = ''Over 1.5 FT'' \<and>
   sugerir_over_ht 2.39 = ''Over 1.5 HT'' \<and> sugerir_over_ht 2.40 = ''Over 1.5 HT''"
proof -
  have le: "(2.39::real) \<le> 2.40" by simp
  have "sugerir_over_ft 2.39 = ''Over 0.5 FT''" "sugerir_over_ft 2.40 = ''Over 1.5 FT''"
       "sugerir_over_ht 2.39 = ''Over 1.5 HT''" "sugerir_over_ht 2.40 = ''Over 1.5 HT''"
    by (simp_all add: sugerir_over_ft_def sugerir_over_ht_def)
  with sugerir_over_mono [OF le] show ?thesis by simp
qed

section \<open>Properties of the normalizers\<close>

lemma split_no_primeiro_x:
  "c \<notin> set h \<Longrightarrow>
   takeWhile (\<lambda>d. d \<noteq> c) (h @ c # a) = h \<and> dropWhile (\<lambda>d. d \<noteq> c) (h @ c # a) = c # a"
  by (induction h) auto

lemma split_x_com_x:
  assumes "CHR ''x'' \<notin> set h"
  shows "split_x (sem_espacos (h @ CHR ''x'' # a)) = (sem_espacos h, Some (sem_espacos a))"
proof -
  have "CHR ''x'' \<notin> set (sem_espacos h)"
    using assms by (simp add: sem_espacos_def)
  then have "split_x (sem_espacos h @ CHR ''x'' # sem_espacos a) =
      (sem_espacos h, Some (sem_espacos a))"
    by (simp add: split_x_def split_no_primeiro_x)
  then show ?thesis
    by (simp add: sem_espacos_def)
qed

lemma split_x_sem_x:
  "CHR ''x'' \<notin> set s \<Longrightarrow> split_x (sem_espacos s) = (sem_espacos s, None)"
  by (simp add: split_x_def sem_espacos_def)

lemma coluna_de_inteiros_lida:
  "coluna_de_inteiros ls \<Longrightarrow> Outro_texto \<notin> set ls \<and> Infinito \<notin> set ls"
  by (auto simp add: coluna_de_inteiros_def list_all_iff)

lemma coluna_de_floats_exatos_lida:
  "coluna_de_floats_exatos ls \<Longrightarrow> Outro_texto \<notin> set ls \<and> Infinito \<notin> set ls"
  by (auto simp add: coluna_de_floats_exatos_def list_all_iff)

lemma fillna_astype_int_modelada:
  assumes "coluna_de_inteiros (map to_numeric coluna) \<or>
           coluna_de_floats_exatos (map to_numeric coluna)"
  shows "fillna_astype_int fora coluna = Some (map (\<lambda>p. valor_lido (to_numeric p)) coluna)"
proof -
  from assms have "Outro_texto \<notin> set (map to_numeric coluna)"
    and "Infinito \<notin> set (map to_numeric coluna)"
    using coluna_de_inteiros_lida coluna_de_floats_exatos_lida by blast+
  with assms show ?thesis
    by (simp add: fillna_astype_int_def Let_def comp_def)
qed

lemma to_numeric_nao_negativo: "0 \<le> valor_lido (to_numeric p)"
  by (simp add: to_numeric_def valor_lido_def split: option.splits)

lemma soma_int64_sem_estouro:
  "0 \<le> a + b \<Longrightarrow> a + b \<le> INT64_MAX \<Longrightarrow> soma_int64 a b = a + b"
  by (simp add: soma_int64_def INT64_MAX_def)

text \<open>
  C5, as the claim states it, at two columns. A part that the library reads as an
  infinity makes \<^verbatim>\<open>astype(int)\<close> raise, and the table returned is empty: the row of the
  cell and the row of every other cell are lost. The total of \<open>9223372036854775807\<close> and
  \<open>1\<close> is not their sum.
\<close>

theorem placares_para_gols_contraexemplo:
  "placares_para_gols nenhuma_outra_coluna [''2 x 1'', ''inf x 1''] = None \<and>
   placares_para_gols nenhuma_outra_coluna [''9223372036854775807 x 1''] =
     Some [(9223372036854775807, 1, - 9223372036854775808)] \<and>
   (- 9223372036854775808 :: int) \<noteq> 9223372036854775807 + 1"
proof -
  have lidos: "to_numeric (Some ''2'') = Inteiro 2" "to_numeric (Some ''1'') = Inteiro 1"
    "to_numeric (Some ''inf'') = Infinito"
    "to_numeric (Some ''9223372036854775807'') = Inteiro 9223372036854775807"
    by (simp_all add: to_numeric_def digito_def letra_def minuscula_def)
  have "placares_para_gols nenhuma_outra_coluna [''2 x 1'', ''inf x 1''] = None"
    by (simp add: placares_para_gols_def sem_espacos_def split_x_def fillna_astype_int_def lidos)
  moreover have "placares_para_gols nenhuma_outra_coluna [''9223372036854775807 x 1''] =
      Some [(9223372036854775807, 1, - 9223372036854775808)]"
    by (simp add: placares_para_gols_def sem_espacos_def split_x_def fillna_astype_int_def lidos
        coluna_de_inteiros_def INT64_MAX_def valor_lido_def soma_int64_def)
  ultimately show ?thesis
    by simp
qed

text \<open>
  C5, amended. On a score column whose two columns of parts the model computes (every
  part is missing, letters other than the names of infinity, or an unsigned decimal
  integer; the integers of a column are at most \<open>INT64_MAX\<close> when the column has only
  integers and at most \<open>FLOAT_EXATO\<close> otherwise), no row is lost and each cell becomes
  the three numbers of \<open>gols_do_placar\<close>: the cell is split, after its spaces are
  removed, at the first \<open>x\<close>; a part that is missing or not read as a number becomes 0,
  a decimal part becomes its value; and the total is the 64-bit sum of the two, which is
  their sum whenever that is at most \<open>INT64_MAX\<close>. The cell \<open>2 x 1\<close> becomes 2, 1
  and 3, the cell \<open>x\<close> becomes 0, 0 and 0.
\<close>

theorem placares_para_gols_modelados:
  assumes "colunas_modeladas placares"
  shows "placares_para_gols fora_do_modelo placares = Some (map gols_do_placar placares) \<and>
         (\<forall>h a. CHR ''x'' \<notin> set h \<longrightarrow>
            gols_do_placar (h @ ''x'' @ a) =
              (valor_lido (to_numeric (Some (sem_espacos h))),
               valor_lido (to_numeric (Some (sem_espacos a))),
               soma_int64 (valor_lido (to_numeric (Some (sem_espacos h))))
                          (valor_lido (to_numeric (Some (sem_espacos a)))))) \<and>
         (\<forall>s. CHR ''x'' \<notin> set s \<longrightarrow>
            gols_do_placar s =
              (valor_lido (to_numeric (Some (sem_espacos s))), 0,
               soma_int64 (valor_lido (to_numeric (Some (sem_espacos s)))) 0)) \<and>
         (\<forall>p. to_numeric p = Nao_numero \<longrightarrow> valor_lido (to_numeric p) = 0) \<and>
         (\<forall>p n. to_numeric p = Inteiro n \<longrightarrow> valor_lido (to_numeric p) = n) \<and>
         (\<forall>placar m v t. gols_do_placar placar = (m, v, t) \<longrightarrow>
            t = soma_int64 m v \<and> (m + v \<le> INT64_MAX \<longrightarrow> t = m + v)) \<and>
         gols_do_placar ''2 x 1'' = (2, 1, 3) \<and>
         gols_do_placar ''x'' = (0, 0, 0)"
proof -
  define partes where "partes = map (\<lambda>placar. split_x (sem_espacos placar)) placares"
  from assms
  have c0: "coluna_de_inteiros (map to_numeric (map (\<lambda>p. Some (fst p)) partes)) \<or>
            coluna_de_floats_exatos (map to_numeric (map (\<lambda>p. Some (fst p)) partes))"
    and c1: "coluna_de_inteiros (map to_numeric (map snd partes)) \<or>
             coluna_de_floats_exatos (map to_numeric (map snd partes))"
    by (simp_all add: colunas_modeladas_def Let_def partes_def comp_def)
  have linhas: "placares_para_gols fora_do_modelo placares = Some (map gols_do_placar placares)"
    unfolding placares_para_gols_def Let_def partes_def [symmetric]
      fillna_astype_int_modelada [OF c0] fillna_astype_int_modelada [OF c1]
    by (simp add: partes_def zip_map_map comp_def zip_same_conv_map gols_do_placar_def Let_def
        case_prod_beta)
  have com_x: "gols_do_placar (h @ ''x'' @ a) =
      (valor_lido (to_numeric (Some (sem_espacos h))),
       valor_lido (to_numeric (Some (sem_espacos a))),
       soma_int64 (valor_lido (to_numeric (Some (sem_espacos h))))
                  (valor_lido (to_numeric (Some (sem_espacos a)))))"
    if "CHR ''x'' \<notin> set h" for h a
    by (simp add: gols_do_placar_def split_x_com_x [OF that] Let_def)
  have sem_x: "gols_do_placar s =
      (valor_lido (to_numeric (Some (sem_espacos s))), 0,
       soma_int64 (valor_lido (to_numeric (Some (sem_espacos s)))) 0)"
    if "CHR ''x'' \<notin> set s" for s
  proof -
    have "valor_lido (to_numeric None) = 0"
      by (simp add: to_numeric_def valor_lido_def)
    then show ?thesis
      by (simp add: gols_do_placar_def split_x_sem_x [OF that] Let_def)
  qed
  have total: "t = soma_int64 m v \<and> (m + v \<le> INT64_MAX \<longrightarrow> t = m + v)"
    if "gols_do_placar placar = (m, v, t)" for placar m v t
  proof -
    from that have m: "m = valor_lido (to_numeric (Some (fst (split_x (sem_espacos placar)))))"
      and v: "v = valor_lido (to_numeric (snd (split_x (sem_espacos placar))))"
      and t: "t = soma_int64 m v"
      by (auto simp add: gols_do_placar_def Let_def case_prod_beta)
    from m v have "0 \<le> m + v"
      using to_numeric_nao_negativo add_nonneg_nonneg by blast
    with t show ?thesis
      by (simp add: soma_int64_sem_estouro)
  qed
  have lidos: "to_numeric (Some ''2'') = Inteiro 2" "to_numeric (Some ''1'') = Inteiro 1"
    "to_numeric (Some []) = Nao_numero"
    by (simp_all add: to_numeric_def digito_def)
  have ex1: "gols_do_placar ''2 x 1'' = (2, 1, 3)"
    by (simp add: gols_do_placar_def sem_espacos_def split_x_def lidos valor_lido_def
        soma_int64_def)
  have ex2: "gols_do_placar ''x'' = (0, 0, 0)"
    by (simp add: gols_do_placar_def sem_espacos_def split_x_def lidos valor_lido_def
        soma_int64_def)
  show ?thesis
    using linhas com_x sem_x total ex1 ex2 by (simp add: valor_lido_def)
qed

theorem placares_para_gols_modelados_witness:
  "colunas_modeladas [''2 x 1'', ''x'', ''21'', ''gol x 3''] \<and>
   placares_para_gols nenhuma_outra_coluna [''2 x 1'', ''x'', ''21'', ''gol x 3''] =
     Some [(2, 1, 3), (0, 0, 0), (21, 0, 21), (0, 3, 3)]"
proof -
  have lidos: "to_numeric (Some ''2'') = Inteiro 2" "to_numeric (Some ''1'') = Inteiro 1"
    "to_numeric (Some ''3'') = Inteiro 3" "to_numeric (Some ''21'') = Inteiro 21"
    "to_numeric (Some []) = Nao_numero" "to_numeric None = Nao_numero"
    "to_numeric (Some ''gol'') = Nao_numero"
    by (simp_all add: to_numeric_def digito_def letra_def minuscula_def)
  have modeladas: "colunas_modeladas [''2 x 1'', ''x'', ''21'', ''gol x 3'']"
    by (simp add: colunas_modeladas_def sem_espacos_def split_x_def lidos
        coluna_de_floats_exatos_def FLOAT_EXATO_def)
  have linhas: "map gols_do_placar [''2 x 1'', ''x'', ''21'', ''gol x 3''] =
      [(2, 1, 3), (0, 0, 0), (21, 0, 21), (0, 3, 3)]"
    by (simp add: gols_do_placar_def sem_espacos_def split_x_def lidos valor_lido_def
        soma_int64_def)
  from placares_para_gols_modelados [OF modeladas, of nenhuma_outra_coluna]
  have "placares_para_gols nenhuma_outra_coluna [''2 x 1'', ''x'', ''21'', ''gol x 3''] =
      Some (map gols_do_placar [''2 x 1'', ''x'', ''21'', ''gol x 3''])"
    by blast
  with modeladas linhas show ?thesis
    by simp
qed

text \<open>
  C6. The results normalizer renames \<open>GT League\<close> and the live normalizer renames
  \<open>E-soccer - GT Leagues - 12 mins de jogo\<close> to the same name, \<open>GT 12 Min\<close>, and the
  other three competitions likewise receive one name in both tables: \<open>H2H 8 Min\<close>,
  \<open>Battle 8 Min\<close> and \<open>Volta 6 Min\<close>. The competitions the live normalizer keeps are
  renamed to exactly the names the results normalizer produces for its four source names.
\<close>

theorem ligas_mesmo_nome:
  "liga_resultados ''GT League'' = ''GT 12 Min'' \<and>
   liga_ao_vivo ''E-soccer - GT Leagues - 12 mins de jogo'' = Some ''GT 12 Min'' \<and>
   liga_resultados ''H2H 8m'' = ''H2H 8 Min'' \<and>
   liga_ao_vivo ''E-soccer - H2H GG League - 8 minutos de jogo'' = Some ''H2H 8 Min'' \<and>
   liga_resultados ''Battle 8m'' = ''Battle 8 Min'' \<and>
   liga_ao_vivo ''E-soccer - Battle - 8 minutos de jogo'' = Some ''Battle 8 Min'' \<and>
   liga_resultados ''Battle 6m'' = ''Volta 6 Min'' \<and>
   liga_ao_vivo ''Esoccer Battle Volta - 6 Minutos de Jogo'' = Some ''Volta 6 Min'' \<and>
   map liga_ao_vivo COMPETICOES_PERMITIDAS =
     map (\<lambda>campeonato. Some (liga_resultados campeonato))
       [''H2H 8m'', ''Battle 6m'', ''GT League'', ''Battle 8m'']"
  by (simp add: liga_resultados_def liga_ao_vivo_def replace_liga_def
      mapa_ligas_resultados_def mapa_ligas_ao_vivo_def COMPETICOES_PERMITIDAS_def)

text \<open>
  C9, at an average between 2.74 and 2.75. The display function gives 2.745 the white
  glyph, although this average is not below 2.62; it lies above the yellow band and
  below the green cutoff, where neither comparison of the function holds.
\<close>

theorem format_gols_ht_entre_faixas:
  "format_gols_ht_com_icone_para_display 2.745 = (Branco, 2.745) \<and>
   \<not> (2.745 :: real) < 2.62 \<and>
   sugerir_over_ht 2.745 = ''Over 1.5 HT''"
  by (simp add: format_gols_ht_com_icone_para_display_def sugerir_over_ht_def)

section \<open>Properties of the statistics engine\<close>

subsection \<open>What one statement does to one counter of one entry\<close>

text \<open>
  A statement that updates another counter leaves the counter \<open>g\<close> of every entry as it
  was; a statement that adds one to the counter \<open>g\<close> of a player's entry adds one for this
  player and nothing for the others.
\<close>

lemma inalterado_atualiza:
  "(\<And>s. g (f s) = g s) \<Longrightarrow> g (atualiza p f js q) = g (js q)"
  by (simp add: atualiza_def)

lemma inalterado_ambos:
  "(\<And>s. g (f s) = g s) \<Longrightarrow> g (ambos m v f js q) = g (js q)"
  by (simp add: ambos_def atualiza_def)

lemma inalterado_se:
  "(\<And>js. g (stmt js q) = g (js q)) \<Longrightarrow> g (se c stmt js q) = g (js q)"
  by (simp add: se_def)

lemma inalterado_if:
  "(\<And>js. g (a js q) = g (js q)) \<Longrightarrow> (\<And>js. g (b js q) = g (js q)) \<Longrightarrow>
   g ((if c then a else b) js q) = g (js q)"
  by simp

lemmas inalterado = inalterado_atualiza inalterado_ambos inalterado_se inalterado_if

lemma atualiza_soma:
  "(\<And>s. g (f s) = g s + 1) \<Longrightarrow>
   g (atualiza p f js q) = g (js q) + um_se (p = q)"
  by (auto simp add: atualiza_def um_se_def)

lemma se_atualiza_soma:
  "(\<And>s. g (f s) = g s + 1) \<Longrightarrow>
   g (se c (atualiza p f) js q) = g (js q) + um_se (p = q \<and> c)"
  by (auto simp add: se_def atualiza_def um_se_def)

lemma se_ambos_soma:
  "(\<And>s. g (f s) = g s + 1) \<Longrightarrow>
   g (se c (ambos m v f) js q) = g (js q) + um_se (m = q \<and> c) + um_se (v = q \<and> c)"
  by (auto simp add: se_def ambos_def atualiza_def um_se_def)

lemma bloco_vitorias:
  "vitorias ((if (a::int) > b
              then atualiza p (\<lambda>s. s\<lparr>vitorias := vitorias s + 1\<rparr>)
              else if a < b
              then atualiza p (\<lambda>s. s\<lparr>derrotas := derrotas s + 1\<rparr>)
              else atualiza p (\<lambda>s. s\<lparr>empates := empates s + 1\<rparr>)) js q) =
   vitorias (js q) + um_se (p = q \<and> a > b)"
  by (simp add: atualiza_def um_se_def)

lemma bloco_derrotas:
  "derrotas ((if (a::int) > b
              then atualiza p (\<lambda>s. s\<lparr>vitorias := vitorias s + 1\<rparr>)
              else if a < b
              then atualiza p (\<lambda>s. s\<lparr>derrotas := derrotas s + 1\<rparr>)
              else atualiza p (\<lambda>s. s\<lparr>empates := empates s + 1\<rparr>)) js q) =
   derrotas (js q) + um_se (p = q \<and> a < b)"
  by (simp add: atualiza_def um_se_def)

lemma bloco_empates:
  "empates ((if (a::int) > b
             then atualiza p (\<lambda>s. s\<lparr>vitorias := vitorias s + 1\<rparr>)
             else if a < b
             then atualiza p (\<lambda>s. s\<lparr>derrotas := derrotas s + 1\<rparr>)
             else atualiza p (\<lambda>s. s\<lparr>empates := empates s + 1\<rparr>)) js q) =
   empates (js q) + um_se (p = q \<and> a = b)"
  by (simp add: atualiza_def um_se_def)

lemma bloco_over_25:
  "over_25_ft_hits
     ((if c
       then ambos m v (\<lambda>s. s\<lparr>over_25_ft_hits := over_25_ft_hits s + 1\<rparr>)
       else ambos m v (\<lambda>s. s\<lparr>estat_todos.under_25_ft_hits :=
                                estat_todos.under_25_ft_hits s + 1\<rparr>)) js q) =
   over_25_ft_hits (js q) + um_se (m = q \<and> c) + um_se (v = q \<and> c)"
  by (simp add: ambos_def atualiza_def um_se_def)

lemma bloco_under_25:
  "estat_todos.under_25_ft_hits
     ((if c
       then ambos m v (\<lambda>s. s\<lparr>over_25_ft_hits := over_25_ft_hits s + 1\<rparr>)
       else ambos m v (\<lambda>s. s\<lparr>estat_todos.under_25_ft_hits :=
                                estat_todos.under_25_ft_hits s + 1\<rparr>)) js q) =
   estat_todos.under_25_ft_hits (js q) + um_se (m = q \<and> \<not> c) + um_se (v = q \<and> \<not> c)"
  by (simp add: ambos_def atualiza_def um_se_def)

subsection \<open>The counters of the table of all players, in closed form\<close>

text \<open>
  Each counter of a player's entry after one row, after any number of rows, and at the end
  of the loop: the number of rows that name the player at home and meet the counter's
  test, plus the number of rows that name the player away and meet it.
\<close>

lemma processa_jogos_total:
  "jogos_total (processa_linha row js p) =
     jogos_total (js p) + um_se (Mandante row = p) + um_se (Visitante row = p)"
  by (simp add: processa_linha_def Let_def inalterado [where g = jogos_total]
      atualiza_soma [where g = jogos_total] split del: if_split)

lemma fold_processa_jogos_total:
  "jogos_total (fold processa_linha df js p) =
     jogos_total (js p) +
     int (length (filter (\<lambda>row. Mandante row = p) df)) +
     int (length (filter (\<lambda>row. Visitante row = p) df))"
  by (induction df arbitrary: js) (simp_all add: processa_jogos_total um_se_def)

lemma contadores_jogos_total:
  "jogos_total (contadores df p) =
     int (length (filter (\<lambda>row. Mandante row = p) df)) +
     int (length (filter (\<lambda>row. Visitante row = p) df))"
  by (simp add: contadores_def fold_processa_jogos_total novo_jogador_def)

lemma processa_vitorias:
  "vitorias (processa_linha row js p) =
     vitorias (js p) + um_se (Mandante row = p \<and> Mandante_FT row > Visitante_FT row) + um_se (Visitante row = p \<and> Visitante_FT row > Mandante_FT row)"
  by (simp add: processa_linha_def Let_def inalterado [where g = vitorias]
      bloco_vitorias split del: if_split)

lemma fold_processa_vitorias:
  "vitorias (fold processa_linha df js p) =
     vitorias (js p) +
     int (length (filter (\<lambda>row. Mandante row = p \<and> Mandante_FT row > Visitante_FT row) df)) +
     int (length (filter (\<lambda>row. Visitante row = p \<and> Visitante_FT row > Mandante_FT row) df))"
  by (induction df arbitrary: js) (simp_all add: processa_vitorias um_se_def)

lemma contadores_vitorias:
  "vitorias (contadores df p) =
     int (length (filter (\<lambda>row. Mandante row = p \<and> Mandante_FT row > Visitante_FT row) df)) +
     int (length (filter (\<lambda>row. Visitante row = p \<and> Visitante_FT row > Mandante_FT row) df))"
  by (simp add: contadores_def fold_processa_vitorias novo_jogador_def)

lemma processa_derrotas:
  "derrotas (processa_linha row js p) =
     derrotas (js p) + um_se (Mandante row = p \<and> Mandante_FT row < Visitante_FT row) + um_se (Visitante row = p \<and> Visitante_FT row < Mandante_FT row)"
  by (simp add: processa_linha_def Let_def inalterado [where g = derrotas]
      bloco_derrotas split del: if_split)

lemma fold_processa_derrotas:
  "derrotas (fold processa_linha df js p) =
     derrotas (js p) +
     int (length (filter (\<lambda>row. Mandante row = p \<and> Mandante_FT row < Visitante_FT row) df)) +
     int (length (filter (\<lambda>row. Visitante row = p \<and> Visitante_FT row < Mandante_FT row) df))"
  by (induction df arbitrary: js) (simp_all add: processa_derrotas um_se_def)

lemma contadores_derrotas:
  "derrotas (contadores df p) =
     int (length (filter (\<lambda>row. Mandante row = p \<and> Mandante_FT row < Visitante_FT row) df)) +
     int (length (filter (\<lambda>row. Visitante row = p \<and> Visitante_FT row < Mandante_FT row) df))"
  by (simp add: contadores_def fold_processa_derrotas novo_jogador_def)

lemma processa_empates:
  "empates (processa_linha row js p) =
     empates (js p) + um_se (Mandante row = p \<and> Mandante_FT row = Visitante_FT row) + um_se (Visitante row = p \<and> Visitante_FT row = Mandante_FT row)"
  by (simp add: processa_linha_def Let_def inalterado [where g = empates]
      bloco_empates split del: if_split)

lemma fold_processa_empates:
  "empates (fold processa_linha df js p) =
     empates (js p) +
     int (length (filter (\<lambda>row. Mandante row = p \<and> Mandante_FT row = Visitante_FT row) df)) +
     int (length (filter (\<lambda>row. Visitante row = p \<and> Visitante_FT row = Mandante_FT row) df))"
  by (induction df arbitrary: js) (simp_all add: processa_empates um_se_def)

lemma contadores_empates:
  "empates (contadores df p) =
     int (length (filter (\<lambda>row. Mandante row = p \<and> Mandante_FT row = Visitante_FT row) df)) +
     int (length (filter (\<lambda>row. Visitante row = p \<and> Visitante_FT row = Mandante_FT row) df))"
  by (simp add: contadores_def fold_processa_empates novo_jogador_def)

lemma processa_clean_sheets:
  "clean_sheets (processa_linha row js p) =
     clean_sheets (js p) + um_se (Mandante row = p \<and> Visitante_FT row = 0) + um_se (Visitante row = p \<and> Mandante_FT row = 0)"
  by (simp add: processa_linha_def Let_def inalterado [where g = clean_sheets]
      se_atualiza_soma [where g = clean_sheets] split del: if_split)

lemma fold_processa_clean_sheets:
  "clean_sheets (fold processa_linha df js p) =
     clean_sheets (js p) +
     int (length (filter (\<lambda>row. Mandante row = p \<and> Visitante_FT row = 0) df)) +
     int (length (filter (\<lambda>row. Visitante row = p \<and> Mandante_FT row = 0) df))"
  by (induction df arbitrary: js) (simp_all add: processa_clean_sheets um_se_def)

lemma contadores_clean_sheets:
  "clean_sheets (contadores df p) =
     int (length (filter (\<lambda>row. Mandante row = p \<and> Visitante_FT row = 0) df)) +
     int (length (filter (\<lambda>row. Visitante row = p \<and> Mandante_FT row = 0) df))"
  by (simp add: contadores_def fold_processa_clean_sheets novo_jogador_def)

lemma processa_over_05_ht_hits:
  "over_05_ht_hits (processa_linha row js p) =
     over_05_ht_hits (js p) + um_se (Mandante row = p \<and> Total_HT row > 0) + um_se (Visitante row = p \<and> Total_HT row > 0)"
  by (simp add: processa_linha_def Let_def inalterado [where g = over_05_ht_hits]
      se_ambos_soma [where g = over_05_ht_hits] split del: if_split)

lemma fold_processa_over_05_ht_hits:
  "over_05_ht_hits (fold processa_linha df js p) =
     over_05_ht_hits (js p) +
     int (length (filter (\<lambda>row. Mandante row = p \<and> Total_HT row > 0) df)) +
     int (length (filter (\<lambda>row. Visitante row = p \<and> Total_HT row > 0) df))"
  by (induction df arbitrary: js) (simp_all add: processa_over_05_ht_hits um_se_def)

lemma contadores_over_05_ht_hits:
  "over_05_ht_hits (contadores df p) =
     int (length (filter (\<lambda>row. Mandante row = p \<and> Total_HT row > 0) df)) +
     int (length (filter (\<lambda>row. Visitante row = p \<and> Total_HT row > 0) df))"
  by (simp add: contadores_def fold_processa_over_05_ht_hits novo_jogador_def)

lemma processa_over_15_ht_hits:
  "over_15_ht_hits (processa_linha row js p) =
     over_15_ht_hits (js p) + um_se (Mandante row = p \<and> Total_HT row > 1) + um_se (Visitante row = p \<and> Total_HT row > 1)"
  by (simp add: processa_linha_def Let_def inalterado [where g = over_15_ht_hits]
      se_ambos_soma [where g = over_15_ht_hits] split del: if_split)

lemma fold_processa_over_15_ht_hits:
  "over_15_ht_hits (fold processa_linha df js p) =
     over_15_ht_hits (js p) +
     int (length (filter (\<lambda>row. Mandante row = p \<and> Total_HT row > 1) df)) +
     int (length (filter (\<lambda>row. Visitante row = p \<and> Total_HT row > 1) df))"
  by (induction df arbitrary: js) (simp_all add: processa_over_15_ht_hits um_se_def)

lemma contadores_over_15_ht_hits:
  "over_15_ht_hits (contadores df p) =
     int (length (filter (\<lambda>row. Mandante row = p \<and> Total_HT row > 1) df)) +
     int (length (filter (\<lambda>row. Visitante row = p \<and> Total_HT row > 1) df))"
  by (simp add: contadores_def fold_processa_over_15_ht_hits novo_jogador_def)

lemma processa_over_25_ht_hits:
  "over_25_ht_hits (processa_linha row js p) =
     over_25_ht_hits (js p) + um_se (Mandante row = p \<and> Total_HT row > 2) + um_se (Visitante row = p \<and> Total_HT row > 2)"
  by (simp add: processa_linha_def Let_def inalterado [where g = over_25_ht_hits]
      se_ambos_soma [where g = over_25_ht_hits] split del: if_split)

lemma fold_processa_over_25_ht_hits:
  "over_25_ht_hits (fold processa_linha df js p) =
     over_25_ht_hits (js p) +
     int (length (filter (\<lambda>row. Mandante row = p \<and> Total_HT row > 2) df)) +
     int (length (filter (\<lambda>row. Visitante row = p \<and> Total_HT row > 2) df))"
  by (induction df arbitrary: js) (simp_all add: processa_over_25_ht_hits um_se_def)

lemma contadores_over_25_ht_hits:
  "over_25_ht_hits (contadores df p) =
     int (length (filter (\<lambda>row. Mandante row = p \<and> Total_HT row > 2) df)) +
     int (length (filter (\<lambda>row. Visitante row = p \<and> Total_HT row > 2) df))"
  by (simp add: contadores_def fold_processa_over_25_ht_hits novo_jogador_def)

lemma processa_btts_ht_hits:
  "btts_ht_hits (processa_linha row js p) =
     btts_ht_hits (js p) + um_se (Mandante row = p \<and> Mandante_HT row > 0 \<and> Visitante_HT row > 0) + um_se (Visitante row = p \<and> Mandante_HT row > 0 \<and> Visitante_HT row > 0)"
  by (simp add: processa_linha_def Let_def inalterado [where g = btts_ht_hits]
      se_ambos_soma [where g = btts_ht_hits] split del: if_split)

lemma fold_processa_btts_ht_hits:
  "btts_ht_hits (fold processa_linha df js p) =
     btts_ht_hits (js p) +
     int (length (filter (\<lambda>row. Mandante row = p \<and> Mandante_HT row > 0 \<and> Visitante_HT row > 0) df)) +
     int (length (filter (\<lambda>row. Visitante row = p \<and> Mandante_HT row > 0 \<and> Visitante_HT row > 0) df))"
  by (induction df arbitrary: js) (simp_all add: processa_btts_ht_hits um_se_def)

lemma contadores_btts_ht_hits:
  "btts_ht_hits (contadores df p) =
     int (length (filter (\<lambda>row. Mandante row = p \<and> Mandante_HT row > 0 \<and> Visitante_HT row > 0) df)) +
     int (length (filter (\<lambda>row. Visitante row = p \<and> Mandante_HT row > 0 \<and> Visitante_HT row > 0) df))"
  by (simp add: contadores_def fold_processa_btts_ht_hits novo_jogador_def)

lemma processa_over_05_ft_hits:
  "over_05_ft_hits (processa_linha row js p) =
     over_05_ft_hits (js p) + um_se (Mandante row = p \<and> Total_FT row > 0) + um_se (Visitante row = p \<and> Total_FT row > 0)"
  by (simp add: processa_linha_def Let_def inalterado [where g = over_05_ft_hits]
      se_ambos_soma [where g = over_05_ft_hits] split del: if_split)

lemma fold_processa_over_05_ft_hits:
  "over_05_ft_hits (fold processa_linha df js p) =
     over_05_ft_hits (js p) +
     int (length (filter (\<lambda>row. Mandante row = p \<and> Total_FT row > 0) df)) +
     int (length (filter (\<lambda>row. Visitante row = p \<and> Total_FT row > 0) df))"
  by (induction df arbitrary: js) (simp_all add: processa_over_05_ft_hits um_se_def)

lemma contadores_over_05_ft_hits:
  "over_05_ft_hits (contadores df p) =
     int (length (filter (\<lambda>row. Mandante row = p \<and> Total_FT row > 0) df)) +
     int (length (filter (\<lambda>row. Visitante row = p \<and> Total_FT row > 0) df))"
  by (simp add: contadores_def fold_processa_over_05_ft_hits novo_jogador_def)

lemma processa_over_15_ft_hits:
  "over_15_ft_hits (processa_linha row js p) =
     over_15_ft_hits (js p) + um_se (Mandante row = p \<and> Total_FT row > 1) + um_se (Visitante row = p \<and> Total_FT row > 1)"
  by (simp add: processa_linha_def Let_def inalterado [where g = over_15_ft_hits]
      se_ambos_soma [where g = over_15_ft_hits] split del: if_split)

lemma fold_processa_over_15_ft_hits:
  "over_15_ft_hits (fold processa_linha df js p) =
     over_15_ft_hits (js p) +
     int (length (filter (\<lambda>row. Mandante row = p \<and> Total_FT row > 1) df)) +
     int (length (filter (\<lambda>row. Visitante row = p \<and> Total_FT row > 1) df))"
  by (induction df arbitrary: js) (simp_all add: processa_over_15_ft_hits um_se_def)

lemma contadores_over_15_ft_hits:
  "over_15_ft_hits (contadores df p) =
     int (length (filter (\<lambda>row. Mandante row = p \<and> Total_FT row > 1) df)) +
     int (length (filter (\<lambda>row. Visitante row = p \<and> Total_FT row > 1) df))"
  by (simp add: contadores_def fold_processa_over_15_ft_hits novo_jogador_def)

lemma processa_over_25_ft_hits:
  "over_25_ft_hits (processa_linha row js p) =
     over_25_ft_hits (js p) + um_se (Mandante row = p \<and> Total_FT row > 2) + um_se (Visitante row = p \<and> Total_FT row > 2)"
  by (simp add: processa_linha_def Let_def inalterado [where g = over_25_ft_hits]
      bloco_over_25 split del: if_split)

lemma fold_processa_over_25_ft_hits:
  "over_25_ft_hits (fold processa_linha df js p) =
     over_25_ft_hits (js p) +
     int (length (filter (\<lambda>row. Mandante row = p \<and> Total_FT row > 2) df)) +
     int (length (filter (\<lambda>row. Visitante row = p \<and> Total_FT row > 2) df))"
  by (induction df arbitrary: js) (simp_all add: processa_over_25_ft_hits um_se_def)

lemma contadores_over_25_ft_hits:
  "over_25_ft_hits (contadores df p) =
     int (length (filter (\<lambda>row. Mandante row = p \<and> Total_FT row > 2) df)) +
     int (length (filter (\<lambda>row. Visitante row = p \<and> Total_FT row > 2) df))"
  by (simp add: contadores_def fold_processa_over_25_ft_hits novo_jogador_def)

lemma processa_over_35_ft_hits:
  "over_35_ft_hits (processa_linha row js p) =
     over_35_ft_hits (js p) + um_se (Mandante row = p \<and> Total_FT row > 3) + um_se (Visitante row = p \<and> Total_FT row > 3)"
  by (simp add: processa_linha_def Let_def inalterado [where g = over_35_ft_hits]
      se_ambos_soma [where g = over_35_ft_hits] split del: if_split)

lemma fold_processa_over_35_ft_hits:
  "over_35_ft_hits (fold processa_linha df js p) =
     over_35_ft_hits (js p) +
     int (length (filter (\<lambda>row. Mandante row = p \<and> Total_FT row > 3) df)) +
     int (length (filter (\<lambda>row. Visitante row = p \<and> Total_FT row > 3) df))"
  by (induction df arbitrary: js) (simp_all add: processa_over_35_ft_hits um_se_def)

lemma contadores_over_35_ft_hits:
  "over_35_ft_hits (contadores df p) =
     int (length (filter (\<lambda>row. Mandante row = p \<and> Total_FT row > 3) df)) +
     int (length (filter (\<lambda>row. Visitante row = p \<and> Total_FT row > 3) df))"
  by (simp add: contadores_def fold_processa_over_35_ft_hits novo_jogador_def)

lemma processa_over_45_ft_hits:
  "over_45_ft_hits (processa_linha row js p) =
     over_45_ft_hits (js p) + um_se (Mandante row = p \<and> Total_FT row > 4) + um_se (Visitante row = p \<and> Total_FT row > 4)"
  by (simp add: processa_linha_def Let_def inalterado [where g = over_45_ft_hits]
      se_ambos_soma [where g = over_45_ft_hits] split del: if_split)

lemma fold_processa_over_45_ft_hits:
  "over_45_ft_hits (fold processa_linha df js p) =
     over_45_ft_hits (js p) +
     int (length (filter (\<lambda>row. Mandante row = p \<and> Total_FT row > 4) df)) +
     int (length (filter (\<lambda>row. Visitante row = p \<and> Total_FT row > 4) df))"
  by (induction df arbitrary: js) (simp_all add: processa_over_45_ft_hits um_se_def)

lemma contadores_over_45_ft_hits:
  "over_45_ft_hits (contadores df p) =
     int (length (filter (\<lambda>row. Mandante row = p \<and> Total_FT row > 4) df)) +
     int (length (filter (\<lambda>row. Visitante row = p \<and> Total_FT row > 4) df))"
  by (simp add: contadores_def fold_processa_over_45_ft_hits novo_jogador_def)

lemma processa_over_55_ft_hits:
  "over_55_ft_hits (processa_linha row js p) =
     over_55_ft_hits (js p) + um_se (Mandante row = p \<and> Total_FT row > 5) + um_se (Visitante row = p \<and> Total_FT row > 5)"
  by (simp add: processa_linha_def Let_def inalterado [where g = over_55_ft_hits]
      se_ambos_soma [where g = over_55_ft_hits] split del: if_split)

lemma fold_processa_over_55_ft_hits:
  "over_55_ft_hits (fold processa_linha df js p) =
     over_55_ft_hits (js p) +
     int (length (filter (\<lambda>row. Mandante row = p \<and> Total_FT row > 5) df)) +
     int (length (filter (\<lambda>row. Visitante row = p \<and> Total_FT row > 5) df))"
  by (induction df arbitrary: js) (simp_all add: processa_over_55_ft_hits um_se_def)

lemma contadores_over_55_ft_hits:
  "over_55_ft_hits (contadores df p) =
     int (length (filter (\<lambda>row. Mandante row = p \<and> Total_FT row > 5) df)) +
     int (length (filter (\<lambda>row. Visitante row = p \<and> Total_FT row > 5) df))"
  by (simp add: contadores_def fold_processa_over_55_ft_hits novo_jogador_def)

lemma processa_over_65_ft_hits:
  "over_65_ft_hits (processa_linha row js p) =
     over_65_ft_hits (js p) + um_se (Mandante row = p \<and> Total_FT row > 6) + um_se (Visitante row = p \<and> Total_FT row > 6)"
  by (simp add: processa_linha_def Let_def inalterado [where g = over_65_ft_hits]
      se_ambos_soma [where g = over_65_ft_hits] split del: if_split)

lemma fold_processa_over_65_ft_hits:
  "over_65_ft_hits (fold processa_linha df js p) =
     over_65_ft_hits (js p) +
     int (length (filter (\<lambda>row. Mandante row = p \<and> Total_FT row > 6) df)) +
     int (length (filter (\<lambda>row. Visitante row = p \<and> Total_FT row > 6) df))"
  by (induction df arbitrary: js) (simp_all add: processa_over_65_ft_hits um_se_def)

lemma contadores_over_65_ft_hits:
  "over_65_ft_hits (contadores df p) =
     int (length (filter (\<lambda>row. Mandante row = p \<and> Total_FT row > 6) df)) +
     int (length (filter (\<lambda>row. Visitante row = p \<and> Total_FT row > 6) df))"
  by (simp add: contadores_def fold_processa_over_65_ft_hits novo_jogador_def)

lemma processa_btts_ft_hits:
  "btts_ft_hits (processa_linha row js p) =
     btts_ft_hits (js p) + um_se (Mandante row = p \<and> Mandante_FT row > 0 \<and> Visitante_FT row > 0) + um_se (Visitante row = p \<and> Mandante_FT row > 0 \<and> Visitante_FT row > 0)"
  by (simp add: processa_linha_def Let_def inalterado [where g = btts_ft_hits]
      se_ambos_soma [where g = btts_ft_hits] split del: if_split)

lemma fold_processa_btts_ft_hits:
  "btts_ft_hits (fold processa_linha df js p) =
     btts_ft_hits (js p) +
     int (length (filter (\<lambda>row. Mandante row = p \<and> Mandante_FT row > 0 \<and> Visitante_FT row > 0) df)) +
     int (length (filter (\<lambda>row. Visitante row = p \<and> Mandante_FT row > 0 \<and> Visitante_FT row > 0) df))"
  by (induction df arbitrary: js) (simp_all add: processa_btts_ft_hits um_se_def)

lemma contadores_btts_ft_hits:
  "btts_ft_hits (contadores df p) =
     int (length (filter (\<lambda>row. Mandante row = p \<and> Mandante_FT row > 0 \<and> Visitante_FT row > 0) df)) +
     int (length (filter (\<lambda>row. Visitante row = p \<and> Mandante_FT row > 0 \<and> Visitante_FT row > 0) df))"
  by (simp add: contadores_def fold_processa_btts_ft_hits novo_jogador_def)

lemma processa_under_25_ft_hits:
  "estat_todos.under_25_ft_hits (processa_linha row js p) =
     estat_todos.under_25_ft_hits (js p) + um_se (Mandante row = p \<and> \<not> Total_FT row > 2) + um_se (Visitante row = p \<and> \<not> Total_FT row > 2)"
  by (simp add: processa_linha_def Let_def inalterado [where g = estat_todos.under_25_ft_hits]
      bloco_under_25 split del: if_split)

lemma fold_processa_under_25_ft_hits:
  "estat_todos.under_25_ft_hits (fold processa_linha df js p) =
     estat_todos.under_25_ft_hits (js p) +
     int (length (filter (\<lambda>row. Mandante row = p \<and> \<not> Total_FT row > 2) df)) +
     int (length (filter (\<lambda>row. Visitante row = p \<and> \<not> Total_FT row > 2) df))"
  by (induction df arbitrary: js) (simp_all add: processa_under_25_ft_hits um_se_def)

lemma contadores_under_25_ft_hits:
  "estat_todos.under_25_ft_hits (contadores df p) =
     int (length (filter (\<lambda>row. Mandante row = p \<and> \<not> Total_FT row > 2) df)) +
     int (length (filter (\<lambda>row. Visitante row = p \<and> \<not> Total_FT row > 2) df))"
  by (simp add: contadores_def fold_processa_under_25_ft_hits novo_jogador_def)
subsection \<open>The counters of one player in one league, in closed form\<close>

lemma acum_hits:
  "over_05_ht_hits (acum j c s) = over_05_ht_hits s + um_se (Total_HT j > 0)"
  "over_15_ht_hits (acum j c s) = over_15_ht_hits s + um_se (Total_HT j > 1)"
  "over_25_ht_hits (acum j c s) = over_25_ht_hits s + um_se (Total_HT j > 2)"
  "over_05_ft_hits (acum j c s) = over_05_ft_hits s + um_se (Total_FT j > 0)"
  "over_15_ft_hits (acum j c s) = over_15_ft_hits s + um_se (Total_FT j > 1)"
  "over_25_ft_hits (acum j c s) = over_25_ft_hits s + um_se (Total_FT j > 2)"
  "over_35_ft_hits (acum j c s) = over_35_ft_hits s + um_se (Total_FT j > 3)"
  "over_45_ft_hits (acum j c s) = over_45_ft_hits s + um_se (Total_FT j > 4)"
  "over_55_ft_hits (acum j c s) = over_55_ft_hits s + um_se (Total_FT j > 5)"
  "over_65_ft_hits (acum j c s) = over_65_ft_hits s + um_se (Total_FT j > 6)"
  "jogos_total (acum j c s) = jogos_total s"
  by (simp_all add: acum_def Let_def)

lemma fold_acum_hits:
  "over_05_ht_hits (fold (\<lambda>j. acum j c) js s) =
     over_05_ht_hits s + int (length (filter (\<lambda>j. Total_HT j > 0) js))"
  "over_15_ht_hits (fold (\<lambda>j. acum j c) js s) =
     over_15_ht_hits s + int (length (filter (\<lambda>j. Total_HT j > 1) js))"
  "over_25_ht_hits (fold (\<lambda>j. acum j c) js s) =
     over_25_ht_hits s + int (length (filter (\<lambda>j. Total_HT j > 2) js))"
  "over_05_ft_hits (fold (\<lambda>j. acum j c) js s) =
     over_05_ft_hits s + int (length (filter (\<lambda>j. Total_FT j > 0) js))"
  "over_15_ft_hits (fold (\<lambda>j. acum j c) js s) =
     over_15_ft_hits s + int (length (filter (\<lambda>j. Total_FT j > 1) js))"
  "over_25_ft_hits (fold (\<lambda>j. acum j c) js s) =
     over_25_ft_hits s + int (length (filter (\<lambda>j. Total_FT j > 2) js))"
  "over_35_ft_hits (fold (\<lambda>j. acum j c) js s) =
     over_35_ft_hits s + int (length (filter (\<lambda>j. Total_FT j > 3) js))"
  "over_45_ft_hits (fold (\<lambda>j. acum j c) js s) =
     over_45_ft_hits s + int (length (filter (\<lambda>j. Total_FT j > 4) js))"
  "over_55_ft_hits (fold (\<lambda>j. acum j c) js s) =
     over_55_ft_hits s + int (length (filter (\<lambda>j. Total_FT j > 5) js))"
  "over_65_ft_hits (fold (\<lambda>j. acum j c) js s) =
     over_65_ft_hits s + int (length (filter (\<lambda>j. Total_FT j > 6) js))"
  "jogos_total (fold (\<lambda>j. acum j c) js s) = jogos_total s"
  by (induction js arbitrary: s; simp add: acum_hits um_se_def)+

lemma calcular_estatisticas_jogador_hits:
  fixes df jogador liga
  defines "s \<equiv> calcular_estatisticas_jogador df jogador liga"
    and "jogos \<equiv> jogos_mandante df jogador liga @ jogos_visitante df jogador liga"
  shows "over_05_ht_hits s = int (length (filter (\<lambda>j. Total_HT j > 0) jogos))"
    and "over_15_ht_hits s = int (length (filter (\<lambda>j. Total_HT j > 1) jogos))"
    and "over_25_ht_hits s = int (length (filter (\<lambda>j. Total_HT j > 2) jogos))"
    and "over_05_ft_hits s = int (length (filter (\<lambda>j. Total_FT j > 0) jogos))"
    and "over_15_ft_hits s = int (length (filter (\<lambda>j. Total_FT j > 1) jogos))"
    and "over_25_ft_hits s = int (length (filter (\<lambda>j. Total_FT j > 2) jogos))"
    and "over_35_ft_hits s = int (length (filter (\<lambda>j. Total_FT j > 3) jogos))"
    and "over_45_ft_hits s = int (length (filter (\<lambda>j. Total_FT j > 4) jogos))"
    and "over_55_ft_hits s = int (length (filter (\<lambda>j. Total_FT j > 5) jogos))"
    and "over_65_ft_hits s = int (length (filter (\<lambda>j. Total_FT j > 6) jogos))"
    and "jogos_total s = int (length jogos)"
  unfolding s_def jogos_def
  by (simp_all add: calcular_estatisticas_jogador_def Let_def fold_acum_hits zeros_def
      jogos_mandante_def jogos_visitante_def)

subsection \<open>The rows of the table of all players\<close>

lemma set_insere_chave: "set (insere_chave k ks) = insert k (set ks)"
  by (auto simp add: insere_chave_def)

lemma set_fold_chaves:
  "set (fold (\<lambda>row ks. insere_chave (Visitante row) (insere_chave (Mandante row) ks)) df ks0) =
     set ks0 \<union> Mandante ` set df \<union> Visitante ` set df"
  by (induction df arbitrary: ks0) (auto simp add: set_insere_chave)

lemma set_chaves: "set (chaves df) = Mandante ` set df \<union> Visitante ` set df"
  by (simp add: chaves_def set_fold_chaves)

lemma linha_jogador_campos:
  "Jogador (linha_jogador p s) = p"
  "jogos_total (linha_jogador p s) = jogos_total s"
  "vitorias (linha_jogador p s) = vitorias s"
  "derrotas (linha_jogador p s) = derrotas s"
  "empates (linha_jogador p s) = empates s"
  "over_05_ht_hits (linha_jogador p s) = over_05_ht_hits s"
  "over_15_ht_hits (linha_jogador p s) = over_15_ht_hits s"
  "over_25_ht_hits (linha_jogador p s) = over_25_ht_hits s"
  "over_05_ft_hits (linha_jogador p s) = over_05_ft_hits s"
  "over_15_ft_hits (linha_jogador p s) = over_15_ft_hits s"
  "over_25_ft_hits (linha_jogador p s) = over_25_ft_hits s"
  "over_35_ft_hits (linha_jogador p s) = over_35_ft_hits s"
  "over_45_ft_hits (linha_jogador p s) = over_45_ft_hits s"
  "over_55_ft_hits (linha_jogador p s) = over_55_ft_hits s"
  "over_65_ft_hits (linha_jogador p s) = over_65_ft_hits s"
  "estat_todos.under_25_ft_hits (linha_jogador p s) = estat_todos.under_25_ft_hits s"
  "Over_25_FT_pct (linha_jogador p s) = taxa (over_25_ft_hits s) (jogos_total s)"
  by (cases s; simp add: linha_jogador_def estat_todos.defs linha_ranking.defs)+

lemma linhas_todos_jogadores:
  assumes "r \<in> set (calcular_estatisticas_todos_jogadores df)"
  obtains p where "r = linha_jogador p (contadores df p)"
    and "p \<in> Mandante ` set df \<union> Visitante ` set df"
  using assms
  by (auto simp add: calcular_estatisticas_todos_jogadores_def set_chaves split: if_splits)

lemma length_filter_mset:
  "length (filter (\<lambda>x. P (f x)) xs) = size (filter_mset P (mset (map f xs)))"
  by (induction xs) simp_all

lemma exemplo_3_1_4:
  assumes "mset (map f xs) = mset [3, 1, 4 :: int]"
  shows "int (length (filter (\<lambda>x. f x > 2) xs)) = 2" and "int (length xs) = 3"
proof -
  from assms have m: "image_mset f (mset xs) = {#3, 1, 4#}"
    by simp
  have "length (filter (\<lambda>x. f x > 2) xs) =
      size (filter_mset (\<lambda>t. t > 2) (image_mset f (mset xs)))"
    using length_filter_mset [of "\<lambda>t. t > 2" f xs] by simp
  then show "int (length (filter (\<lambda>x. f x > 2) xs)) = 2"
    by (simp add: m)
  have "length xs = size (image_mset f (mset xs))"
    by simp
  then show "int (length xs) = 3"
    by (simp only: m) simp
qed

subsection \<open>The claims about the counters\<close>

text \<open>
  C1. Each of the ten Over counters, in the statistics of one player in one league and in
  every row of the table of all players, is the number of the player's games whose
  period total is greater than the counter's whole number: 0, 1, 2 at half time and
  0, 1, ..., 6 at full time. The player's games are the rows that name the player at home
  followed by the rows that name the player away (within the league, for the first
  function), the rows that the game counter counts. A player whose games have the
  full-time totals 3, 1 and 4, in any order, has 2 hits of Over 2.5 FT, 3 games and the
  rate 200/3.
\<close>

theorem over_hits_contam:
  "(let s = calcular_estatisticas_jogador df jogador liga;
        jogos = jogos_mandante df jogador liga @ jogos_visitante df jogador liga
    in over_05_ht_hits s = int (length (filter (\<lambda>j. Total_HT j > 0) jogos)) \<and>
       over_15_ht_hits s = int (length (filter (\<lambda>j. Total_HT j > 1) jogos)) \<and>
       over_25_ht_hits s = int (length (filter (\<lambda>j. Total_HT j > 2) jogos)) \<and>
       over_05_ft_hits s = int (length (filter (\<lambda>j. Total_FT j > 0) jogos)) \<and>
       over_15_ft_hits s = int (length (filter (\<lambda>j. Total_FT j > 1) jogos)) \<and>
       over_25_ft_hits s = int (length (filter (\<lambda>j. Total_FT j > 2) jogos)) \<and>
       over_35_ft_hits s = int (length (filter (\<lambda>j. Total_FT j > 3) jogos)) \<and>
       over_45_ft_hits s = int (length (filter (\<lambda>j. Total_FT j > 4) jogos)) \<and>
       over_55_ft_hits s = int (length (filter (\<lambda>j. Total_FT j > 5) jogos)) \<and>
       over_65_ft_hits s = int (length (filter (\<lambda>j. Total_FT j > 6) jogos)) \<and>
       (mset (map Total_FT jogos) = mset [3, 1, 4] \<longrightarrow> over_25_ft_hits s = 2)) \<and>
   (\<forall>r \<in> set (calcular_estatisticas_todos_jogadores df).
      let jogos = filter (\<lambda>j. Mandante j = Jogador r) df @
                  filter (\<lambda>j. Visitante j = Jogador r) df
      in over_05_ht_hits r = int (length (filter (\<lambda>j. Total_HT j > 0) jogos)) \<and>
         over_15_ht_hits r = int (length (filter (\<lambda>j. Total_HT j > 1) jogos)) \<and>
         over_25_ht_hits r = int (length (filter (\<lambda>j. Total_HT j > 2) jogos)) \<and>
         over_05_ft_hits r = int (length (filter (\<lambda>j. Total_FT j > 0) jogos)) \<and>
         over_15_ft_hits r = int (length (filter (\<lambda>j. Total_FT j > 1) jogos)) \<and>
         over_25_ft_hits r = int (length (filter (\<lambda>j. Total_FT j > 2) jogos)) \<and>
         over_35_ft_hits r = int (length (filter (\<lambda>j. Total_FT j > 3) jogos)) \<and>
         over_45_ft_hits r = int (length (filter (\<lambda>j. Total_FT j > 4) jogos)) \<and>
         over_55_ft_hits r = int (length (filter (\<lambda>j. Total_FT j > 5) jogos)) \<and>
         over_65_ft_hits r = int (length (filter (\<lambda>j. Total_FT j > 6) jogos)) \<and>
         (mset (map Total_FT jogos) = mset [3, 1, 4] \<longrightarrow>
            over_25_ft_hits r = 2 \<and> jogos_total r = 3 \<and>
            Over_25_FT_pct r = Finito (200 / 3)))"
proof -
  define s where "s = calcular_estatisticas_jogador df jogador liga"
  define jl where "jl = jogos_mandante df jogador liga @ jogos_visitante df jogador liga"
  note liga = calcular_estatisticas_jogador_hits [of df jogador liga, folded s_def jl_def]
  have ex_liga: "over_25_ft_hits s = 2" if "mset (map Total_FT jl) = mset [3, 1, 4]"
    using exemplo_3_1_4 (1) [OF that] liga (6) by simp
  have todos: "over_05_ht_hits r = int (length (filter (\<lambda>j. Total_HT j > 0) (jt r))) \<and>
      over_15_ht_hits r = int (length (filter (\<lambda>j. Total_HT j > 1) (jt r))) \<and>
      over_25_ht_hits r = int (length (filter (\<lambda>j. Total_HT j > 2) (jt r))) \<and>
      over_05_ft_hits r = int (length (filter (\<lambda>j. Total_FT j > 0) (jt r))) \<and>
      over_15_ft_hits r = int (length (filter (\<lambda>j. Total_FT j > 1) (jt r))) \<and>
      over_25_ft_hits r = int (length (filter (\<lambda>j. Total_FT j > 2) (jt r))) \<and>
      over_35_ft_hits r = int (length (filter (\<lambda>j. Total_FT j > 3) (jt r))) \<and>
      over_45_ft_hits r = int (length (filter (\<lambda>j. Total_FT j > 4) (jt r))) \<and>
      over_55_ft_hits r = int (length (filter (\<lambda>j. Total_FT j > 5) (jt r))) \<and>
      over_65_ft_hits r = int (length (filter (\<lambda>j. Total_FT j > 6) (jt r))) \<and>
      (mset (map Total_FT (jt r)) = mset [3, 1, 4] \<longrightarrow>
         over_25_ft_hits r = 2 \<and> jogos_total r = 3 \<and> Over_25_FT_pct r = Finito (200 / 3))"
    if r: "r \<in> set (calcular_estatisticas_todos_jogadores df)"
      and jt: "jt = (\<lambda>r. filter (\<lambda>j. Mandante j = Jogador r) df @
                          filter (\<lambda>j. Visitante j = Jogador r) df)"
    for r jt
  proof -
    from r obtain p where p: "r = linha_jogador p (contadores df p)"
      by (rule linhas_todos_jogadores)
    have jp: "jt r = filter (\<lambda>j. Mandante j = p) df @ filter (\<lambda>j. Visitante j = p) df"
      by (simp add: jt p linha_jogador_campos)
    have over: "over_25_ft_hits r = int (length (filter (\<lambda>j. Total_FT j > 2) (jt r)))"
      unfolding jp by (simp add: p linha_jogador_campos contadores_over_25_ft_hits)
    have total: "jogos_total r = int (length (jt r))"
      unfolding jp by (simp add: p linha_jogador_campos contadores_jogos_total)
    have taxa_r: "Over_25_FT_pct r = taxa (over_25_ft_hits r) (jogos_total r)"
      by (simp add: p linha_jogador_campos)
    have ex: "over_25_ft_hits r = 2 \<and> jogos_total r = 3 \<and> Over_25_FT_pct r = Finito (200 / 3)"
      if "mset (map Total_FT (jt r)) = mset [3, 1, 4]"
      using exemplo_3_1_4 [OF that] over total taxa_r
      by (simp add: taxa_def truediv_def vezes_100_def fillna_0_def)
    have eqs: "over_05_ht_hits r = int (length (filter (\<lambda>j. Total_HT j > 0) (jt r))) \<and>
        over_15_ht_hits r = int (length (filter (\<lambda>j. Total_HT j > 1) (jt r))) \<and>
        over_25_ht_hits r = int (length (filter (\<lambda>j. Total_HT j > 2) (jt r))) \<and>
        over_05_ft_hits r = int (length (filter (\<lambda>j. Total_FT j > 0) (jt r))) \<and>
        over_15_ft_hits r = int (length (filter (\<lambda>j. Total_FT j > 1) (jt r))) \<and>
        over_25_ft_hits r = int (length (filter (\<lambda>j. Total_FT j > 2) (jt r))) \<and>
        over_35_ft_hits r = int (length (filter (\<lambda>j. Total_FT j > 3) (jt r))) \<and>
        over_45_ft_hits r = int (length (filter (\<lambda>j. Total_FT j > 4) (jt r))) \<and>
        over_55_ft_hits r = int (length (filter (\<lambda>j. Total_FT j > 5) (jt r))) \<and>
        over_65_ft_hits r = int (length (filter (\<lambda>j. Total_FT j > 6) (jt r)))"
      unfolding jp
      by (simp add: p linha_jogador_campos contadores_over_05_ht_hits
          contadores_over_15_ht_hits contadores_over_25_ht_hits contadores_over_05_ft_hits
          contadores_over_15_ft_hits contadores_over_25_ft_hits contadores_over_35_ft_hits
          contadores_over_45_ft_hits contadores_over_55_ft_hits contadores_over_65_ft_hits)
    show ?thesis
      using eqs ex by blast
  qed
  have parte_liga: "over_05_ht_hits s = int (length (filter (\<lambda>j. Total_HT j > 0) jl)) \<and>
      over_15_ht_hits s = int (length (filter (\<lambda>j. Total_HT j > 1) jl)) \<and>
      over_25_ht_hits s = int (length (filter (\<lambda>j. Total_HT j > 2) jl)) \<and>
      over_05_ft_hits s = int (length (filter (\<lambda>j. Total_FT j > 0) jl)) \<and>
      over_15_ft_hits s = int (length (filter (\<lambda>j. Total_FT j > 1) jl)) \<and>
      over_25_ft_hits s = int (length (filter (\<lambda>j. Total_FT j > 2) jl)) \<and>
      over_35_ft_hits s = int (length (filter (\<lambda>j. Total_FT j > 3) jl)) \<and>
      over_45_ft_hits s = int (length (filter (\<lambda>j. Total_FT j > 4) jl)) \<and>
      over_55_ft_hits s = int (length (filter (\<lambda>j. Total_FT j > 5) jl)) \<and>
      over_65_ft_hits s = int (length (filter (\<lambda>j. Total_FT j > 6) jl)) \<and>
      (mset (map Total_FT jl) = mset [3, 1, 4] \<longrightarrow> over_25_ft_hits s = 2)"
    using liga ex_liga by blast
  show ?thesis
    unfolding Let_def
    using parte_liga todos [OF _ refl]
    unfolding s_def jl_def by blast
qed

theorem over_hits_contam_witness:
  "over_25_ft_hits (calcular_estatisticas_jogador tabela_exemplo ''Ana'' ''GT 12 Min'') = 2 \<and>
   linha_jogador ''Ana'' (contadores tabela_exemplo ''Ana'')
     \<in> set (calcular_estatisticas_todos_jogadores tabela_exemplo) \<and>
   over_25_ft_hits (linha_jogador ''Ana'' (contadores tabela_exemplo ''Ana'')) = 2 \<and>
   jogos_total (linha_jogador ''Ana'' (contadores tabela_exemplo ''Ana'')) = 3 \<and>
   Over_25_FT_pct (linha_jogador ''Ana'' (contadores tabela_exemplo ''Ana'')) = Finito (200 / 3)"
proof -
  define r where "r = linha_jogador ''Ana'' (contadores tabela_exemplo ''Ana'')"
  have liga: "mset (map Total_FT (jogos_mandante tabela_exemplo ''Ana'' ''GT 12 Min'' @
      jogos_visitante tabela_exemplo ''Ana'' ''GT 12 Min'')) = mset [3, 1, 4]"
    by (simp add: tabela_exemplo_def jogo_def jogos_mandante_def jogos_visitante_def)
  have r_in: "r \<in> set (calcular_estatisticas_todos_jogadores tabela_exemplo)"
    by (simp add: r_def calcular_estatisticas_todos_jogadores_def chaves_def insere_chave_def
        tabela_exemplo_def jogo_def)
  have todos: "mset (map Total_FT (filter (\<lambda>j. Mandante j = Jogador r) tabela_exemplo @
      filter (\<lambda>j. Visitante j = Jogador r) tabela_exemplo)) = mset [3, 1, 4]"
    by (simp add: r_def linha_jogador_campos tabela_exemplo_def jogo_def)
  note t = over_hits_contam [of tabela_exemplo "''Ana''" "''GT 12 Min''", unfolded Let_def]
  from t liga have "over_25_ft_hits (calcular_estatisticas_jogador tabela_exemplo ''Ana'' ''GT 12 Min'') = 2"
    by blast
  moreover from t r_in todos
  have "over_25_ft_hits r = 2 \<and> jogos_total r = 3 \<and> Over_25_FT_pct r = Finito (200 / 3)"
    by blast
  ultimately show ?thesis
    using r_in by (simp add: r_def)
qed
text \<open>
  C10. In every row of the table of all players, wins, losses and draws add up to the
  number of games, the Over 2.5 FT and Under 2.5 FT counters add up to the number of
  games, and the number of games is at least 1.
\<close>

lemma particao_resultado:
  "int (length (filter (\<lambda>x. Q x \<and> f x > g x) xs)) +
   int (length (filter (\<lambda>x. Q x \<and> f x < g x) xs)) +
   int (length (filter (\<lambda>x. Q x \<and> f x = g x) xs)) =
   int (length (filter Q xs))"
  for f g :: "'a \<Rightarrow> int"
  by (induction xs) auto

lemma particao_over_under:
  "int (length (filter (\<lambda>x. Q x \<and> P x) xs)) +
   int (length (filter (\<lambda>x. Q x \<and> \<not> P x) xs)) =
   int (length (filter Q xs))"
  by (induction xs) auto

lemma jogou_pelo_menos_uma:
  "x \<in> set xs \<Longrightarrow> P x \<Longrightarrow> 1 \<le> int (length (filter P xs))"
  by (induction xs) auto

lemma contadores_vde:
  "vitorias (contadores df p) + derrotas (contadores df p) + empates (contadores df p) =
     jogos_total (contadores df p)"
  unfolding contadores_vitorias contadores_derrotas contadores_empates contadores_jogos_total
  using particao_resultado
      [where Q = "\<lambda>row. Mandante row = p" and f = Mandante_FT and g = Visitante_FT and xs = df]
    particao_resultado
      [where Q = "\<lambda>row. Visitante row = p" and f = Visitante_FT and g = Mandante_FT and xs = df]
  by linarith

lemma contadores_over_under:
  "over_25_ft_hits (contadores df p) + estat_todos.under_25_ft_hits (contadores df p) =
     jogos_total (contadores df p)"
  unfolding contadores_over_25_ft_hits contadores_under_25_ft_hits contadores_jogos_total
  using particao_over_under
      [where Q = "\<lambda>row. Mandante row = p" and P = "\<lambda>row. Total_FT row > 2" and xs = df]
    particao_over_under
      [where Q = "\<lambda>row. Visitante row = p" and P = "\<lambda>row. Total_FT row > 2" and xs = df]
  by linarith

lemma contadores_jogos_positivo:
  assumes "p \<in> Mandante ` set df \<union> Visitante ` set df"
  shows "1 \<le> jogos_total (contadores df p)"
proof -
  from assms consider row where "row \<in> set df" "Mandante row = p"
    | row where "row \<in> set df" "Visitante row = p"
    by auto
  then show ?thesis
  proof cases
    case 1
    then have "1 \<le> int (length (filter (\<lambda>row. Mandante row = p) df))"
      by (rule jogou_pelo_menos_uma)
    then show ?thesis
      by (simp add: contadores_jogos_total)
  next
    case 2
    then have "1 \<le> int (length (filter (\<lambda>row. Visitante row = p) df))"
      by (rule jogou_pelo_menos_uma)
    then show ?thesis
      by (simp add: contadores_jogos_total)
  qed
qed

theorem invariantes_todos_jogadores:
  "\<forall>r \<in> set (calcular_estatisticas_todos_jogadores df).
     vitorias r + derrotas r + empates r = jogos_total r \<and>
     over_25_ft_hits r + estat_todos.under_25_ft_hits r = jogos_total r \<and>
     jogos_total r \<ge> 1"
proof
  fix r
  assume "r \<in> set (calcular_estatisticas_todos_jogadores df)"
  then obtain p where p: "r = linha_jogador p (contadores df p)"
    and jogou: "p \<in> Mandante ` set df \<union> Visitante ` set df"
    by (rule linhas_todos_jogadores)
  show "vitorias r + derrotas r + empates r = jogos_total r \<and>
     over_25_ft_hits r + estat_todos.under_25_ft_hits r = jogos_total r \<and>
     jogos_total r \<ge> 1"
    using contadores_vde [of df p] contadores_over_under [of df p]
      contadores_jogos_positivo [OF jogou]
    by (simp add: p linha_jogador_campos)
qed

theorem invariantes_todos_jogadores_witness:
  "linha_jogador ''Ana'' (contadores tabela_exemplo ''Ana'')
     \<in> set (calcular_estatisticas_todos_jogadores tabela_exemplo) \<and>
   vitorias (contadores tabela_exemplo ''Ana'') + derrotas (contadores tabela_exemplo ''Ana'') +
     empates (contadores tabela_exemplo ''Ana'') = jogos_total (contadores tabela_exemplo ''Ana'') \<and>
   over_25_ft_hits (contadores tabela_exemplo ''Ana'') +
     estat_todos.under_25_ft_hits (contadores tabela_exemplo ''Ana'') =
     jogos_total (contadores tabela_exemplo ''Ana'') \<and>
   jogos_total (contadores tabela_exemplo ''Ana'') = 3 \<and>
   vitorias (contadores tabela_exemplo ''Ana'') = 2 \<and>
   derrotas (contadores tabela_exemplo ''Ana'') = 1"
proof -
  define r where "r = linha_jogador ''Ana'' (contadores tabela_exemplo ''Ana'')"
  have r_in: "r \<in> set (calcular_estatisticas_todos_jogadores tabela_exemplo)"
    by (simp add: r_def calcular_estatisticas_todos_jogadores_def chaves_def insere_chave_def
        tabela_exemplo_def jogo_def)
  have valores: "jogos_total (contadores tabela_exemplo ''Ana'') = 3"
    "vitorias (contadores tabela_exemplo ''Ana'') = 2"
    "derrotas (contadores tabela_exemplo ''Ana'') = 1"
    by (simp_all add: contadores_jogos_total contadores_vitorias contadores_derrotas
        tabela_exemplo_def jogo_def)
  from invariantes_todos_jogadores [of tabela_exemplo] r_in
  have "vitorias r + derrotas r + empates r = jogos_total r \<and>
     over_25_ft_hits r + estat_todos.under_25_ft_hits r = jogos_total r \<and>
     jogos_total r \<ge> 1"
    by blast
  then show ?thesis
    using r_in valores by (simp add: r_def linha_jogador_campos)
qed

section \<open>Properties of the recent-games statistics\<close>

subsection \<open>What one statement does to one counter\<close>

lemma inalterado_se_reg:
  "(\<And>s. g (f s) = g s) \<Longrightarrow> g (se c f s) = g s"
  by (simp add: se_def)

lemma inalterado_if_reg:
  "(\<And>s. g (a s) = g s) \<Longrightarrow> (\<And>s. g (b s) = g s) \<Longrightarrow>
   g ((if c then a else b) s) = g s"
  by simp

lemmas inalterado_reg = inalterado_se_reg inalterado_if_reg

lemma se_soma:
  "(\<And>s. g (f s) = g s + 1) \<Longrightarrow> g (se c f s) = g s + um_se c"
  by (simp add: se_def um_se_def)

lemma bloco_over_25_rec:
  "over_25_ft_hits
     ((if c then (\<lambda>s. s\<lparr>over_25_ft_hits := over_25_ft_hits s + 1\<rparr>)
       else (\<lambda>s. s\<lparr>recentes.under_25_ft_hits := recentes.under_25_ft_hits s + 1\<rparr>)) s) =
   over_25_ft_hits s + um_se c"
  by (simp add: um_se_def)

lemma bloco_under_25_rec:
  "recentes.under_25_ft_hits
     ((if c then (\<lambda>s. s\<lparr>over_25_ft_hits := over_25_ft_hits s + 1\<rparr>)
       else (\<lambda>s. s\<lparr>recentes.under_25_ft_hits := recentes.under_25_ft_hits s + 1\<rparr>)) s) =
   recentes.under_25_ft_hits s + um_se (\<not> c)"
  by (simp add: um_se_def)

subsection \<open>The counters after the loop\<close>




lemma passo_over_05_ht_hits:
  "over_05_ht_hits (fst (passo_recente p row st)) =
     over_05_ht_hits (fst st) + um_se (Total_HT row > 0)"
  by (cases st)
    (simp add: passo_recente_def Let_def case_prod_beta inalterado_reg [where g = over_05_ht_hits]
      se_soma [where g = over_05_ht_hits] over_25_ft_current_def
      split del: if_split)

lemma fold_passo_over_05_ht_hits:
  "over_05_ht_hits (fst (fold (passo_recente p) ws st)) =
     over_05_ht_hits (fst st) + int (length (filter (\<lambda>row. Total_HT row > 0) ws))"
  by (induction ws arbitrary: st) (simp_all add: passo_over_05_ht_hits um_se_def)

lemma laco_over_05_ht_hits:
  "0 \<le> over_05_ht_hits (laco_recente p ws) \<and>
   over_05_ht_hits (laco_recente p ws) \<le> int (length ws)"
  by (simp add: laco_recente_def fold_passo_over_05_ht_hits recentes_iniciais_def)

lemma passo_over_15_ht_hits:
  "over_15_ht_hits (fst (passo_recente p row st)) =
     over_15_ht_hits (fst st) + um_se (Total_HT row > 1)"
  by (cases st)
    (simp add: passo_recente_def Let_def case_prod_beta inalterado_reg [where g = over_15_ht_hits]
      se_soma [where g = over_15_ht_hits] over_25_ft_current_def
      split del: if_split)

lemma fold_passo_over_15_ht_hits:
  "over_15_ht_hits (fst (fold (passo_recente p) ws st)) =
     over_15_ht_hits (fst st) + int (length (filter (\<lambda>row. Total_HT row > 1) ws))"
  by (induction ws arbitrary: st) (simp_all add: passo_over_15_ht_hits um_se_def)

lemma laco_over_15_ht_hits:
  "0 \<le> over_15_ht_hits (laco_recente p ws) \<and>
   over_15_ht_hits (laco_recente p ws) \<le> int (length ws)"
  by (simp add: laco_recente_def fold_passo_over_15_ht_hits recentes_iniciais_def)

lemma passo_over_25_ht_hits:
  "over_25_ht_hits (fst (passo_recente p row st)) =
     over_25_ht_hits (fst st) + um_se (Total_HT row > 2)"
  by (cases st)
    (simp add: passo_recente_def Let_def case_prod_beta inalterado_reg [where g = over_25_ht_hits]
      se_soma [where g = over_25_ht_hits] over_25_ft_current_def
      split del: if_split)

lemma fold_passo_over_25_ht_hits:
  "over_25_ht_hits (fst (fold (passo_recente p) ws st)) =
     over_25_ht_hits (fst st) + int (length (filter (\<lambda>row. Total_HT row > 2) ws))"
  by (induction ws arbitrary: st) (simp_all add: passo_over_25_ht_hits um_se_def)

lemma laco_over_25_ht_hits:
  "0 \<le> over_25_ht_hits (laco_recente p ws) \<and>
   over_25_ht_hits (laco_recente p ws) \<le> int (length ws)"
  by (simp add: laco_recente_def fold_passo_over_25_ht_hits recentes_iniciais_def)

lemma passo_btts_ht_hits:
  "btts_ht_hits (fst (passo_recente p row st)) =
     btts_ht_hits (fst st) + um_se (fst (gols_ht_do_jogador p row) > 0 \<and> snd (gols_ht_do_jogador p row) > 0)"
  by (cases st)
    (simp add: passo_recente_def Let_def case_prod_beta inalterado_reg [where g = btts_ht_hits]
      se_soma [where g = btts_ht_hits] over_25_ft_current_def
      split del: if_split)

lemma fold_passo_btts_ht_hits:
  "btts_ht_hits (fst (fold (passo_recente p) ws st)) =
     btts_ht_hits (fst st) + int (length (filter (\<lambda>row. fst (gols_ht_do_jogador p row) > 0 \<and> snd (gols_ht_do_jogador p row) > 0) ws))"
  by (induction ws arbitrary: st) (simp_all add: passo_btts_ht_hits um_se_def)

lemma laco_btts_ht_hits:
  "0 \<le> btts_ht_hits (laco_recente p ws) \<and>
   btts_ht_hits (laco_recente p ws) \<le> int (length ws)"
  by (simp add: laco_recente_def fold_passo_btts_ht_hits recentes_iniciais_def)

lemma passo_over_05_ft_hits:
  "over_05_ft_hits (fst (passo_recente p row st)) =
     over_05_ft_hits (fst st) + um_se (Total_FT row > 0)"
  by (cases st)
    (simp add: passo_recente_def Let_def case_prod_beta inalterado_reg [where g = over_05_ft_hits]
      se_soma [where g = over_05_ft_hits] over_25_ft_current_def
      split del: if_split)

lemma fold_passo_over_05_ft_hits:
  "over_05_ft_hits (fst (fold (passo_recente p) ws st)) =
     over_05_ft_hits (fst st) + int (length (filter (\<lambda>row. Total_FT row > 0) ws))"
  by (induction ws arbitrary: st) (simp_all add: passo_over_05_ft_hits um_se_def)

lemma laco_over_05_ft_hits:
  "0 \<le> over_05_ft_hits (laco_recente p ws) \<and>
   over_05_ft_hits (laco_recente p ws) \<le> int (length ws)"
  by (simp add: laco_recente_def fold_passo_over_05_ft_hits recentes_iniciais_def)

lemma passo_over_15_ft_hits:
  "over_15_ft_hits (fst (passo_recente p row st)) =
     over_15_ft_hits (fst st) + um_se (Total_FT row > 1)"
  by (cases st)
    (simp add: passo_recente_def Let_def case_prod_beta inalterado_reg [where g = over_15_ft_hits]
      se_soma [where g = over_15_ft_hits] over_25_ft_current_def
      split del: if_split)

lemma fold_passo_over_15_ft_hits:
  "over_15_ft_hits (fst (fold (passo_recente p) ws st)) =
     over_15_ft_hits (fst st) + int (length (filter (\<lambda>row. Total_FT row > 1) ws))"
  by (induction ws arbitrary: st) (simp_all add: passo_over_15_ft_hits um_se_def)

lemma laco_over_15_ft_hits:
  "0 \<le> over_15_ft_hits (laco_recente p ws) \<and>
   over_15_ft_hits (laco_recente p ws) \<le> int (length ws)"
  by (simp add: laco_recente_def fold_passo_over_15_ft_hits recentes_iniciais_def)

lemma passo_over_25_ft_hits:
  "over_25_ft_hits (fst (passo_recente p row st)) =
     over_25_ft_hits (fst st) + um_se (Total_FT row > 2)"
  by (cases st)
    (simp add: passo_recente_def Let_def case_prod_beta inalterado_reg [where g = over_25_ft_hits]
      bloco_over_25_rec over_25_ft_current_def
      split del: if_split)

lemma fold_passo_over_25_ft_hits:
  "over_25_ft_hits (fst (fold (passo_recente p) ws st)) =
     over_25_ft_hits (fst st) + int (length (filter (\<lambda>row. Total_FT row > 2) ws))"
  by (induction ws arbitrary: st) (simp_all add: passo_over_25_ft_hits um_se_def)

lemma laco_over_25_ft_hits:
  "0 \<le> over_25_ft_hits (laco_recente p ws) \<and>
   over_25_ft_hits (laco_recente p ws) \<le> int (length ws)"
  by (simp add: laco_recente_def fold_passo_over_25_ft_hits recentes_iniciais_def)

lemma passo_over_35_ft_hits:
  "over_35_ft_hits (fst (passo_recente p row st)) =
     over_35_ft_hits (fst st) + um_se (Total_FT row > 3)"
  by (cases st)
    (simp add: passo_recente_def Let_def case_prod_beta inalterado_reg [where g = over_35_ft_hits]
      se_soma [where g = over_35_ft_hits] over_25_ft_current_def
      split del: if_split)

lemma fold_passo_over_35_ft_hits:
  "over_35_ft_hits (fst (fold (passo_recente p) ws st)) =
     over_35_ft_hits (fst st) + int (length (filter (\<lambda>row. Total_FT row > 3) ws))"
  by (induction ws arbitrary: st) (simp_all add: passo_over_35_ft_hits um_se_def)

lemma laco_over_35_ft_hits:
  "0 \<le> over_35_ft_hits (laco_recente p ws) \<and>
   over_35_ft_hits (laco_recente p ws) \<le> int (length ws)"
  by (simp add: laco_recente_def fold_passo_over_35_ft_hits recentes_iniciais_def)

lemma passo_over_45_ft_hits:
  "over_45_ft_hits (fst (passo_recente p row st)) =
     over_45_ft_hits (fst st) + um_se (Total_FT row > 4)"
  by (cases st)
    (simp add: passo_recente_def Let_def case_prod_beta inalterado_reg [where g = over_45_ft_hits]
      se_soma [where g = over_45_ft_hits] over_25_ft_current_def
      split del: if_split)

lemma fold_passo_over_45_ft_hits:
  "over_45_ft_hits (fst (fold (passo_recente p) ws st)) =
     over_45_ft_hits (fst st) + int (length (filter (\<lambda>row. Total_FT row > 4) ws))"
  by (induction ws arbitrary: st) (simp_all add: passo_over_45_ft_hits um_se_def)

lemma laco_over_45_ft_hits:
  "0 \<le> over_45_ft_hits (laco_recente p ws) \<and>
   over_45_ft_hits (laco_recente p ws) \<le> int (length ws)"
  by (simp add: laco_recente_def fold_passo_over_45_ft_hits recentes_iniciais_def)

lemma passo_over_55_ft_hits:
  "over_55_ft_hits (fst (passo_recente p row st)) =
     over_55_ft_hits (fst st) + um_se (Total_FT row > 5)"
  by (cases st)
    (simp add: passo_recente_def Let_def case_prod_beta inalterado_reg [where g = over_55_ft_hits]
      se_soma [where g = over_55_ft_hits] over_25_ft_current_def
      split del: if_split)

lemma fold_passo_over_55_ft_hits:
  "over_55_ft_hits (fst (fold (passo_recente p) ws st)) =
     over_55_ft_hits (fst st) + int (length (filter (\<lambda>row. Total_FT row > 5) ws))"
  by (induction ws arbitrary: st) (simp_all add: passo_over_55_ft_hits um_se_def)

lemma laco_over_55_ft_hits:
  "0 \<le> over_55_ft_hits (laco_recente p ws) \<and>
   over_55_ft_hits (laco_recente p ws) \<le> int (length ws)"
  by (simp add: laco_recente_def fold_passo_over_55_ft_hits recentes_iniciais_def)

lemma passo_over_65_ft_hits:
  "over_65_ft_hits (fst (passo_recente p row st)) =
     over_65_ft_hits (fst st) + um_se (Total_FT row > 6)"
  by (cases st)
    (simp add: passo_recente_def Let_def case_prod_beta inalterado_reg [where g = over_65_ft_hits]
      se_soma [where g = over_65_ft_hits] over_25_ft_current_def
      split del: if_split)

lemma fold_passo_over_65_ft_hits:
  "over_65_ft_hits (fst (fold (passo_recente p) ws st)) =
     over_65_ft_hits (fst st) + int (length (filter (\<lambda>row. Total_FT row > 6) ws))"
  by (induction ws arbitrary: st) (simp_all add: passo_over_65_ft_hits um_se_def)

lemma laco_over_65_ft_hits:
  "0 \<le> over_65_ft_hits (laco_recente p ws) \<and>
   over_65_ft_hits (laco_recente p ws) \<le> int (length ws)"
  by (simp add: laco_recente_def fold_passo_over_65_ft_hits recentes_iniciais_def)

lemma passo_btts_ft_hits:
  "btts_ft_hits (fst (passo_recente p row st)) =
     btts_ft_hits (fst st) + um_se (btts_ft_current p row)"
  by (cases st)
    (simp add: passo_recente_def Let_def case_prod_beta inalterado_reg [where g = btts_ft_hits]
      se_soma [where g = btts_ft_hits] over_25_ft_current_def
      split del: if_split)

lemma fold_passo_btts_ft_hits:
  "btts_ft_hits (fst (fold (passo_recente p) ws st)) =
     btts_ft_hits (fst st) + int (length (filter (\<lambda>row. btts_ft_current p row) ws))"
  by (induction ws arbitrary: st) (simp_all add: passo_btts_ft_hits um_se_def)

lemma laco_btts_ft_hits:
  "0 \<le> btts_ft_hits (laco_recente p ws) \<and>
   btts_ft_hits (laco_recente p ws) \<le> int (length ws)"
  by (simp add: laco_recente_def fold_passo_btts_ft_hits recentes_iniciais_def)

lemma passo_under_25_ft_hits:
  "recentes.under_25_ft_hits (fst (passo_recente p row st)) =
     recentes.under_25_ft_hits (fst st) + um_se (\<not> Total_FT row > 2)"
  by (cases st)
    (simp add: passo_recente_def Let_def case_prod_beta inalterado_reg [where g = recentes.under_25_ft_hits]
      bloco_under_25_rec over_25_ft_current_def
      split del: if_split)

lemma fold_passo_under_25_ft_hits:
  "recentes.under_25_ft_hits (fst (fold (passo_recente p) ws st)) =
     recentes.under_25_ft_hits (fst st) + int (length (filter (\<lambda>row. \<not> Total_FT row > 2) ws))"
  by (induction ws arbitrary: st) (simp_all add: passo_under_25_ft_hits um_se_def)

lemma laco_under_25_ft_hits:
  "0 \<le> recentes.under_25_ft_hits (laco_recente p ws) \<and>
   recentes.under_25_ft_hits (laco_recente p ws) \<le> int (length ws)"
  by (simp add: laco_recente_def fold_passo_under_25_ft_hits recentes_iniciais_def)

subsection \<open>The streak counters\<close>
















subsection \<open>What the function returns\<close>

lemma py_truediv_Some: "b \<noteq> 0 \<Longrightarrow> py_truediv a b = Some (real_of_int a / real_of_int b)"
  by (simp add: py_truediv_def)









end
